theory Spec2Isabelle
  imports Main
begin

section \<open>Data model of \<open>main.js\<close>\<close>

text \<open>
  The module instance is a JavaScript object whose fields are mutated in place; the model
  is a record passed through every method and returned updated. Values that JavaScript
  lets be \<open>null\<close> or \<open>undefined\<close> are options. The two counters are JavaScript
  numbers holding non-negative integers (exact below \<open>2 ^ 53\<close>); they are natural
  numbers here.
\<close>

datatype InstanceStatus = Connecting | Ok | ConnectionFailure | BadConfig

datatype error = Error string | TypeError string

datatype level = LDebug | LInfo | LWarn | LError

text \<open>The log lines of \<open>main.js\<close>, one constructor per template, carrying the
  interpolated values.\<close>

datatype msg =
    MsgNotConfiguredYet
  | MsgInitializing
  | MsgVariablesAfterInit
  | MsgConnectionFailed error
  | MsgSchedulingReconnect nat
  | MsgNotFullyConfigured
  | MsgHeartbeatFailed error
  | MsgGettingChoices string
  | MsgAllVariables
  | MsgNotInitializedOrEmpty string
  | MsgChoices string
  | MsgErrorInGetVariableChoices error

text \<open>The two callbacks \<open>main.js\<close> hands to the timers: \<open>() => this.connect()\<close>
  and the asynchronous heartbeat probe.\<close>

datatype callback = ConnectCallback | HeartbeatCallback

datatype timer = Timeout callback nat | Interval callback nat

text \<open>Calls that leave \<open>main.js\<close> for the other modules of the repository.\<close>

datatype ext_call =
    CallAuthAuthenticate
  | CallFetchMatrixFeatures
  | CallUpdateActions
  | CallUpdateFeedbacks
  | CallUpdateVariableDefinitions
  | CallHeartbeatStart
  | CallSendHeartbeat

record config =
  host :: "string option"
  username :: "string option"
  password :: "string option"

record ModuleInstance =
  config :: "config option"
  authHeader :: "string option"
  csrfToken :: "string option"
  realm :: "string option"
  nonce :: "string option"
  ncCounter :: nat
  heartbeatInterval :: "nat option"
  lastAuthTime :: "nat option"
  connectionFailed :: bool
  reconnectTimeout :: "nat option"
  reconnectAttempts :: nat
  matrixVariables :: "(string \<rightharpoonup> string list) option"
  status :: "InstanceStatus option"
  logs :: "(level \<times> msg) list"
  timers :: "(nat \<times> timer) list"
  nextTimer :: nat
  calls :: "ext_call list"
  ncSent :: "nat list"

text \<open>
  The last six fields are not fields of the JavaScript object: \<open>status\<close> is what
  \<open>updateStatus\<close> last reported to the host, \<open>logs\<close> what \<open>log\<close> wrote,
  \<open>timers\<close> the runtime's table of armed timers (handle and timer; a one-shot timer
  leaves the table when it fires), \<open>nextTimer\<close> the next fresh handle, \<open>calls\<close>
  the trace of the calls that the methods of \<open>main.js\<close> make into the other modules,
  and \<open>ncSent\<close> the nonce counts handed to \<open>auth.digestAuth\<close>, in order.
\<close>

record auth_result =
  res_authHeader :: "string option"
  res_csrfToken :: "string option"
  res_realm :: "string option"
  res_nonce :: "string option"

record heartbeat_result =
  hb_authHeader :: "string option"
  hb_csrfToken :: "string option"

record choice =
  id :: string
  label :: string

text \<open>
  The modules \<open>auth\<close>, \<open>matrix\<close>, \<open>heartbeat\<close>, \<open>actions\<close>, \<open>feedbacks\<close> and
  \<open>variables\<close> are not part of \<open>main.js\<close>. Each function of theirs that \<open>main.js\<close>
  calls is a parameter: it receives the instance, may change any of it, and returns or
  throws. \<open>auth.digestAuth\<close> receives no instance, only its seven arguments.
\<close>

record env =
  auth_authenticate :: "ModuleInstance \<Rightarrow> (error + auth_result option) \<times> ModuleInstance"
  auth_digestAuth ::
    "string \<Rightarrow> string \<Rightarrow> string \<Rightarrow> string \<Rightarrow> string \<Rightarrow> string \<Rightarrow> nat \<Rightarrow> error + string"
  matrix_fetchMatrixFeatures :: "ModuleInstance \<Rightarrow> (error + unit) \<times> ModuleInstance"
  heartbeat_startHeartbeat :: "ModuleInstance \<Rightarrow> (error + unit) \<times> ModuleInstance"
  heartbeat_sendHeartbeat :: "ModuleInstance \<Rightarrow> (error + heartbeat_result option) \<times> ModuleInstance"
  UpdateActions :: "ModuleInstance \<Rightarrow> (error + unit) \<times> ModuleInstance"
  UpdateFeedbacks :: "ModuleInstance \<Rightarrow> (error + unit) \<times> ModuleInstance"
  UpdateVariableDefinitions :: "ModuleInstance \<Rightarrow> (error + unit) \<times> ModuleInstance"

section \<open>Host runtime and timers\<close>

text \<open>
  \<open>log\<close> and \<open>updateStatus\<close> belong to the host's base class, the four timer
  functions to the runtime. A timer handle is an object of the runtime, never falsy and
  never handed out twice; here it is a number taken from the counter \<open>nextTimer\<close>.
  Clearing a handle that is not armed does nothing.
\<close>

definition log :: "level \<Rightarrow> msg \<Rightarrow> ModuleInstance \<Rightarrow> ModuleInstance" where
  "log l m s = s\<lparr>logs := logs s @ [(l, m)]\<rparr>"

definition updateStatus :: "InstanceStatus \<Rightarrow> ModuleInstance \<Rightarrow> ModuleInstance" where
  "updateStatus st s = s\<lparr>status := Some st\<rparr>"

definition setTimeout :: "callback \<Rightarrow> nat \<Rightarrow> ModuleInstance \<Rightarrow> nat \<times> ModuleInstance" where
  "setTimeout cb d s =
     (nextTimer s,
      s\<lparr>timers := timers s @ [(nextTimer s, Timeout cb d)], nextTimer := Suc (nextTimer s)\<rparr>)"

definition setInterval :: "callback \<Rightarrow> nat \<Rightarrow> ModuleInstance \<Rightarrow> nat \<times> ModuleInstance" where
  "setInterval cb d s =
     (nextTimer s,
      s\<lparr>timers := timers s @ [(nextTimer s, Interval cb d)], nextTimer := Suc (nextTimer s)\<rparr>)"

definition clearTimeout :: "nat \<Rightarrow> ModuleInstance \<Rightarrow> ModuleInstance" where
  "clearTimeout h s = s\<lparr>timers := filter (\<lambda>p. fst p \<noteq> h) (timers s)\<rparr>"

definition clearInterval :: "nat \<Rightarrow> ModuleInstance \<Rightarrow> ModuleInstance" where
  "clearInterval h s = s\<lparr>timers := filter (\<lambda>p. fst p \<noteq> h) (timers s)\<rparr>"

text \<open>A call into another module: the callee runs on the instance, and the call is
  appended to the trace of the caller, whatever the callee did meanwhile.\<close>

definition call :: "ext_call \<Rightarrow> (ModuleInstance \<Rightarrow> 'r \<times> ModuleInstance) \<Rightarrow> ModuleInstance \<Rightarrow> 'r \<times> ModuleInstance" where
  "call c f s = (case f s of (r, s') \<Rightarrow> (r, s'\<lparr>calls := calls s @ [c]\<rparr>))"

section \<open>The methods of \<open>ModuleInstance\<close>\<close>

definition constructor :: ModuleInstance where
  "constructor =
     \<lparr>config = None, authHeader = None, csrfToken = None, realm = None, nonce = None,
      ncCounter = 1, heartbeatInterval = None, lastAuthTime = None,
      connectionFailed = False, reconnectTimeout = None, reconnectAttempts = 0,
      matrixVariables = None, status = None, logs = [], timers = [], nextTimer = 0,
      calls = [], ncSent = []\<rparr>"

text \<open>JavaScript's \<open>!v\<close> on a string that may be missing.\<close>

definition falsy :: "string option \<Rightarrow> bool" where
  "falsy v = (v = None \<or> v = Some [])"

text \<open>The test \<open>!this.config.host || !this.config.username || !this.config.password\<close>
  of \<open>init\<close>, \<open>configUpdated\<close> and \<open>authenticate\<close>.\<close>

definition notConfigured :: "config \<Rightarrow> bool" where
  "notConfigured c = (falsy (host c) \<or> falsy (username c) \<or> falsy (password c))"

definition updateActions :: "env \<Rightarrow> ModuleInstance \<Rightarrow> (error + unit) \<times> ModuleInstance" where
  "updateActions e s = call CallUpdateActions (UpdateActions e) s"

definition updateFeedbacks :: "env \<Rightarrow> ModuleInstance \<Rightarrow> (error + unit) \<times> ModuleInstance" where
  "updateFeedbacks e s = call CallUpdateFeedbacks (UpdateFeedbacks e) s"

definition updateVariableDefinitions :: "env \<Rightarrow> ModuleInstance \<Rightarrow> (error + unit) \<times> ModuleInstance" where
  "updateVariableDefinitions e s =
     call CallUpdateVariableDefinitions (UpdateVariableDefinitions e) s"

definition reconnectDelay :: "nat \<Rightarrow> nat" where
  "reconnectDelay a = min 30000 (1000 * 2 ^ a)"

definition scheduleReconnect :: "ModuleInstance \<Rightarrow> ModuleInstance" where
  "scheduleReconnect s =
     (let s1 = (case reconnectTimeout s of Some h \<Rightarrow> clearTimeout h s | None \<Rightarrow> s);
          delay = reconnectDelay (reconnectAttempts s1);
          s2 = s1\<lparr>reconnectAttempts := reconnectAttempts s1 + 1\<rparr>;
          (h, s3) = setTimeout ConnectCallback delay s2;
          s4 = s3\<lparr>reconnectTimeout := Some h\<rparr>
      in log LInfo (MsgSchedulingReconnect delay) s4)"

definition stopHeartbeat :: "ModuleInstance \<Rightarrow> ModuleInstance" where
  "stopHeartbeat s =
     (case heartbeatInterval s of
        Some h \<Rightarrow> (clearInterval h s)\<lparr>heartbeatInterval := None\<rparr>
      | None \<Rightarrow> s)"

definition startHeartbeat :: "env \<Rightarrow> ModuleInstance \<Rightarrow> (error + unit) \<times> ModuleInstance" where
  "startHeartbeat e s =
     (case call CallHeartbeatStart (heartbeat_startHeartbeat e) (stopHeartbeat s) of
        (Inl err, s1) \<Rightarrow> (Inl err, s1)
      | (Inr _, s1) \<Rightarrow>
          (case setInterval HeartbeatCallback 30000 s1 of
             (h, s2) \<Rightarrow> (Inr (), s2\<lparr>heartbeatInterval := Some h\<rparr>)))"

definition authenticate :: "env \<Rightarrow> ModuleInstance \<Rightarrow> (error + bool) \<times> ModuleInstance" where
  "authenticate e s =
     (case config s of
        None \<Rightarrow> (Inl (TypeError ''Cannot read properties of undefined''), s)
      | Some c \<Rightarrow>
          if notConfigured c then (Inl (Error ''Module not fully configured''), s)
          else
            (case call CallAuthAuthenticate (auth_authenticate e) s of
               (Inl err, s1) \<Rightarrow> (Inl err, s1)
             | (Inr None, s1) \<Rightarrow> (Inl (Error ''Authentication failed''), s1)
             | (Inr (Some r), s1) \<Rightarrow>
                 (Inr True,
                  s1\<lparr>authHeader := res_authHeader r, csrfToken := res_csrfToken r,
                     realm := res_realm r, nonce := res_nonce r\<rparr>)))"

text \<open>The \<open>catch\<close> block of \<open>connect\<close>.\<close>

definition connectFailed :: "error \<Rightarrow> ModuleInstance \<Rightarrow> ModuleInstance" where
  "connectFailed err s =
     scheduleReconnect
       ((updateStatus ConnectionFailure (log LError (MsgConnectionFailed err) s))
          \<lparr>connectionFailed := True\<rparr>)"

text \<open>The \<open>try\<close> block of \<open>connect\<close>: the first statement that throws ends it.\<close>

definition connectTry :: "env \<Rightarrow> ModuleInstance \<Rightarrow> (error + unit) \<times> ModuleInstance" where
  "connectTry e s =
     (case authenticate e s of
        (Inl err, s1) \<Rightarrow> (Inl err, s1)
      | (Inr _, s1) \<Rightarrow>
          (case call CallFetchMatrixFeatures (matrix_fetchMatrixFeatures e) s1 of
             (Inl err, s2) \<Rightarrow> (Inl err, s2)
           | (Inr _, s2) \<Rightarrow>
               (case updateActions e (log LDebug MsgVariablesAfterInit s2) of
                  (Inl err, s3) \<Rightarrow> (Inl err, s3)
                | (Inr _, s3) \<Rightarrow>
                    (case startHeartbeat e s3 of
                       (Inl err, s4) \<Rightarrow> (Inl err, s4)
                     | (Inr _, s4) \<Rightarrow>
                         (Inr (),
                          (updateStatus Ok s4)
                            \<lparr>connectionFailed := False, reconnectAttempts := 0\<rparr>)))))"

definition connect :: "env \<Rightarrow> ModuleInstance \<Rightarrow> ModuleInstance" where
  "connect e s =
     (case connectTry e s of
        (Inl err, s1) \<Rightarrow> connectFailed err s1
      | (Inr _, s1) \<Rightarrow> s1)"

definition init :: "env \<Rightarrow> config \<Rightarrow> ModuleInstance \<Rightarrow> (error + unit) \<times> ModuleInstance" where
  "init e c s =
     (case updateFeedbacks e (updateStatus Connecting (s\<lparr>config := Some c\<rparr>)) of
        (Inl err, s1) \<Rightarrow> (Inl err, s1)
      | (Inr _, s1) \<Rightarrow>
          (case updateVariableDefinitions e s1 of
             (Inl err, s2) \<Rightarrow> (Inl err, s2)
           | (Inr _, s2) \<Rightarrow>
               (case config s2 of
                  None \<Rightarrow> (Inl (TypeError ''Cannot read properties of undefined''), s2)
                | Some c2 \<Rightarrow>
                    if notConfigured c2
                    then (Inr (), updateStatus BadConfig (log LWarn MsgNotConfiguredYet s2))
                    else (Inr (), connect e (log LInfo MsgInitializing s2)))))"

definition configUpdated :: "env \<Rightarrow> config \<Rightarrow> ModuleInstance \<Rightarrow> ModuleInstance" where
  "configUpdated e c s =
     (let s1 = s\<lparr>config := Some c\<rparr> in
      if notConfigured c
      then updateStatus BadConfig (log LWarn MsgNotFullyConfigured s1)
      else connect e (stopHeartbeat s1))"

text \<open>The callback that \<open>startHeartbeat\<close> hands to \<open>setInterval\<close>.\<close>

definition heartbeatCallback :: "env \<Rightarrow> ModuleInstance \<Rightarrow> ModuleInstance" where
  "heartbeatCallback e s =
     (case call CallSendHeartbeat (heartbeat_sendHeartbeat e) s of
        (Inl err, s1) \<Rightarrow>
          scheduleReconnect
            (stopHeartbeat
               (updateStatus ConnectionFailure (log LWarn (MsgHeartbeatFailed err) s1)))
      | (Inr None, s1) \<Rightarrow> s1
      | (Inr (Some r), s1) \<Rightarrow> s1\<lparr>authHeader := hb_authHeader r, csrfToken := hb_csrfToken r\<rparr>)"

definition destroy :: "ModuleInstance \<Rightarrow> ModuleInstance" where
  "destroy s =
     (let s1 = stopHeartbeat s in
      case reconnectTimeout s1 of Some h \<Rightarrow> clearTimeout h s1 | None \<Rightarrow> s1)"

definition digestAuth ::
  "env \<Rightarrow> string \<Rightarrow> string \<Rightarrow> string \<Rightarrow> string \<Rightarrow> string \<Rightarrow> string \<Rightarrow> ModuleInstance
     \<Rightarrow> (error + string) \<times> ModuleInstance" where
  "digestAuth e method uri rlm nnc usr pwd s =
     (auth_digestAuth e method uri rlm nnc usr pwd (ncCounter s),
      s\<lparr>ncCounter := ncCounter s + 1, ncSent := ncSent s @ [ncCounter s]\<rparr>)"

text \<open>
  \<open>matrixVariables\<close> is a plain JavaScript object (\<open>{}\<close> when unset). Its own
  properties are the entries of the data model's mapping, from a type name to its list
  of strings. A name it does not hold is looked up in \<open>Object.prototype\<close>, which every
  plain object inherits from: \<open>variables[type]\<close> is then a built-in function (whose
  \<open>length\<close> is its number of parameters), the prototype object itself for
  \<open>__proto__\<close>, or \<open>undefined\<close> for every other name.
\<close>

datatype jsval = JsUndefined | JsArray "string list" | JsFunction nat | JsObject

definition objectPrototype :: "string \<Rightarrow> jsval" where
  "objectPrototype k =
     (if k \<in> {''toString'', ''valueOf'', ''toLocaleString''} then JsFunction 0
      else if k \<in> {''constructor'', ''hasOwnProperty'', ''isPrototypeOf'',
                    ''propertyIsEnumerable'', ''__lookupGetter__'', ''__lookupSetter__''}
        then JsFunction 1
      else if k \<in> {''__defineGetter__'', ''__defineSetter__''} then JsFunction 2
      else if k = ''__proto__'' then JsObject
      else JsUndefined)"

definition getProperty :: "(string \<rightharpoonup> string list) \<Rightarrow> string \<Rightarrow> jsval" where
  "getProperty obj k = (case obj k of Some vs \<Rightarrow> JsArray vs | None \<Rightarrow> objectPrototype k)"

text \<open>
  In \<open>getVariableChoices\<close> the test \<open>!variables[type] || variables[type].length === 0\<close>
  holds for \<open>undefined\<close>, for an empty array and for a function of length 0. A value
  that passes it and is no array has no \<open>map\<close>: the call throws a \<open>TypeError\<close>, and the
  \<open>catch\<close> block logs it as an error and returns the empty list.
\<close>

definition getVariableChoices :: "string \<Rightarrow> ModuleInstance \<Rightarrow> choice list \<times> ModuleInstance" where
  "getVariableChoices ty s =
     (let s1 = log LDebug (MsgGettingChoices ty) s;
          variables = (case matrixVariables s1 of Some m \<Rightarrow> m | None \<Rightarrow> Map.empty);
          s2 = log LDebug MsgAllVariables s1;
          caught = ([], log LError (MsgErrorInGetVariableChoices
                                     (TypeError ''variables[type].map is not a function'')) s2)
      in case getProperty variables ty of
           JsUndefined \<Rightarrow> ([], log LWarn (MsgNotInitializedOrEmpty ty) s2)
         | JsArray vs \<Rightarrow>
             if length vs = 0 then ([], log LWarn (MsgNotInitializedOrEmpty ty) s2)
             else
               (let choices = map (\<lambda>v. \<lparr>id = v, label = v\<rparr>) vs
                in (choices, log LDebug (MsgChoices ty) s2))
         | JsFunction n \<Rightarrow>
             if n = 0 then ([], log LWarn (MsgNotInitializedOrEmpty ty) s2) else caught
         | JsObject \<Rightarrow> caught)"

section \<open>Sequences of calls, timers firing, reachable states\<close>

text \<open>Requests issued one after the other through \<open>digestAuth\<close>; a request is the six
  arguments method, uri, realm, nonce, username, password.\<close>

type_synonym request = "string \<times> string \<times> string \<times> string \<times> string \<times> string"

fun digestAuths :: "env \<Rightarrow> request list \<Rightarrow> ModuleInstance \<Rightarrow> (error + string) list \<times> ModuleInstance" where
  "digestAuths e [] s = ([], s)"
| "digestAuths e ((method, uri, rlm, nnc, usr, pwd) # rs) s =
     (case digestAuth e method uri rlm nnc usr pwd s of
        (r, s1) \<Rightarrow> (case digestAuths e rs s1 of (rest, s2) \<Rightarrow> (r # rest, s2)))"

text \<open>The runtime fires the timer with handle \<open>h\<close>, if it is armed: a one-shot timer
  leaves the table and its callback runs, an interval timer stays.\<close>

definition runCallback :: "env \<Rightarrow> callback \<Rightarrow> ModuleInstance \<Rightarrow> ModuleInstance" where
  "runCallback e cb s =
     (case cb of ConnectCallback \<Rightarrow> connect e s | HeartbeatCallback \<Rightarrow> heartbeatCallback e s)"

definition fire :: "env \<Rightarrow> nat \<Rightarrow> ModuleInstance \<Rightarrow> ModuleInstance" where
  "fire e h s =
     (case map_of (timers s) h of
        None \<Rightarrow> s
      | Some (Timeout cb d) \<Rightarrow> runCallback e cb (clearTimeout h s)
      | Some (Interval cb d) \<Rightarrow> runCallback e cb s)"

fun isReconnectTimer :: "timer \<Rightarrow> bool" where
  "isReconnectTimer (Timeout ConnectCallback d) = True"
| "isReconnectTimer _ = False"

fun isHeartbeatTimer :: "timer \<Rightarrow> bool" where
  "isHeartbeatTimer (Interval HeartbeatCallback d) = True"
| "isHeartbeatTimer _ = False"

definition reconnectTimers :: "ModuleInstance \<Rightarrow> (nat \<times> timer) list" where
  "reconnectTimers s = filter (\<lambda>p. isReconnectTimer (snd p)) (timers s)"

definition heartbeatTimers :: "ModuleInstance \<Rightarrow> (nat \<times> timer) list" where
  "heartbeatTimers s = filter (\<lambda>p. isHeartbeatTimer (snd p)) (timers s)"

text \<open>What is assumed of the other modules is a relation between the instance before and
  after each of their functions.\<close>

definition extRel :: "(ModuleInstance \<Rightarrow> ModuleInstance \<Rightarrow> bool) \<Rightarrow> env \<Rightarrow> bool" where
  "extRel R e =
     (\<forall>s. R s (snd (auth_authenticate e s)) \<and>
          R s (snd (matrix_fetchMatrixFeatures e s)) \<and>
          R s (snd (heartbeat_startHeartbeat e s)) \<and>
          R s (snd (heartbeat_sendHeartbeat e s)) \<and>
          R s (snd (UpdateActions e s)) \<and>
          R s (snd (UpdateFeedbacks e s)) \<and>
          R s (snd (UpdateVariableDefinitions e s)))"

text \<open>A step that neither arms nor clears a timer and assigns neither handle field.\<close>

definition sameTimers :: "ModuleInstance \<Rightarrow> ModuleInstance \<Rightarrow> bool" where
  "sameTimers s s' =
     (timers s' = timers s \<and> nextTimer s' = nextTimer s \<and>
      heartbeatInterval s' = heartbeatInterval s \<and> reconnectTimeout s' = reconnectTimeout s)"

definition ncNotDecreased :: "ModuleInstance \<Rightarrow> ModuleInstance \<Rightarrow> bool" where
  "ncNotDecreased s s' = (ncCounter s \<le> ncCounter s')"

definition sameAttempts :: "ModuleInstance \<Rightarrow> ModuleInstance \<Rightarrow> bool" where
  "sameAttempts s s' = (reconnectAttempts s' = reconnectAttempts s)"

text \<open>
  The asynchronous methods are modelled as running to their end: the state after each
  \<open>await\<close> is the one the awaited function returned. The states of an instance are the
  constructed one and every state that a method of the class, a timer firing, or any
  step that leaves the timers alone (another module between two of its own \<open>await\<close>s,
  \<open>digestAuth\<close>, \<open>getVariableChoices\<close>, \<open>authenticate\<close>) leads to, in any order;
  since the timers are touched only by \<open>scheduleReconnect\<close>, \<open>startHeartbeat\<close>,
  \<open>stopHeartbeat\<close>, \<open>destroy\<close> and the runtime, none of which awaits, this covers
  the interleavings of several methods in flight. The other modules are assumed to
  leave the timers alone.
\<close>

inductive reachable :: "ModuleInstance \<Rightarrow> bool" where
  r_constructor: "reachable constructor"
| r_init: "reachable s \<Longrightarrow> extRel sameTimers e \<Longrightarrow> reachable (snd (init e c s))"
| r_configUpdated: "reachable s \<Longrightarrow> extRel sameTimers e \<Longrightarrow> reachable (configUpdated e c s)"
| r_connect: "reachable s \<Longrightarrow> extRel sameTimers e \<Longrightarrow> reachable (connect e s)"
| r_scheduleReconnect: "reachable s \<Longrightarrow> reachable (scheduleReconnect s)"
| r_startHeartbeat: "reachable s \<Longrightarrow> extRel sameTimers e \<Longrightarrow> reachable (snd (startHeartbeat e s))"
| r_stopHeartbeat: "reachable s \<Longrightarrow> reachable (stopHeartbeat s)"
| r_destroy: "reachable s \<Longrightarrow> reachable (destroy s)"
| r_fire: "reachable s \<Longrightarrow> extRel sameTimers e \<Longrightarrow> reachable (fire e h s)"
| r_other: "reachable s \<Longrightarrow> sameTimers s s' \<Longrightarrow> reachable s'"

text \<open>Every armed timer is the one whose handle the instance holds: a one-shot timer is
  the reconnect timer in \<open>reconnectTimeout\<close>, an interval timer the heartbeat in
  \<open>heartbeatInterval\<close>; handles are not reused.\<close>

fun timerOk :: "ModuleInstance \<Rightarrow> nat \<times> timer \<Rightarrow> bool" where
  "timerOk s (h, Timeout cb d) =
     (h < nextTimer s \<and> cb = ConnectCallback \<and> reconnectTimeout s = Some h)"
| "timerOk s (h, Interval cb d) =
     (h < nextTimer s \<and> cb = HeartbeatCallback \<and> heartbeatInterval s = Some h)"

definition timersInv :: "ModuleInstance \<Rightarrow> bool" where
  "timersInv s = (distinct (map fst (timers s)) \<and> list_all (timerOk s) (timers s))"

section \<open>Example collaborators and configurations\<close>

text \<open>A device that accepts the credentials and answers every request: each function of
  the other modules returns, and feature discovery stores two sources.\<close>

definition okEnv :: env where
  "okEnv =
     \<lparr>auth_authenticate =
        (\<lambda>s. (Inr (Some \<lparr>res_authHeader = Some ''Digest h1'', res_csrfToken = Some ''t1'',
                           res_realm = Some ''tieline'', res_nonce = Some ''n1''\<rparr>), s)),
      auth_digestAuth = (\<lambda>method uri rlm nnc usr pwd nc. Inr ''Digest''),
      matrix_fetchMatrixFeatures =
        (\<lambda>s. (Inr (), s\<lparr>matrixVariables := Some [''sources'' \<mapsto> [''A'', ''B'']]\<rparr>)),
      heartbeat_startHeartbeat = (\<lambda>s. (Inr (), s)),
      heartbeat_sendHeartbeat =
        (\<lambda>s. (Inr (Some \<lparr>hb_authHeader = Some ''Digest h2'', hb_csrfToken = Some ''t2''\<rparr>), s)),
      UpdateActions = (\<lambda>s. (Inr (), s)),
      UpdateFeedbacks = (\<lambda>s. (Inr (), s)),
      UpdateVariableDefinitions = (\<lambda>s. (Inr (), s))\<rparr>"

text \<open>A device that cannot be reached: authentication and the heartbeat probe throw.\<close>

definition downEnv :: env where
  "downEnv =
     okEnv\<lparr>auth_authenticate := (\<lambda>s. (Inl (Error ''connect ECONNREFUSED''), s)),
           heartbeat_sendHeartbeat := (\<lambda>s. (Inl (Error ''socket hang up''), s))\<rparr>"

text \<open>A device that accepts the credentials and fails the feature query.\<close>

definition noFeaturesEnv :: env where
  "noFeaturesEnv =
     okEnv\<lparr>matrix_fetchMatrixFeatures := (\<lambda>s. (Inl (Error ''HTTP 500''), s))\<rparr>"

text \<open>A device that answers, while registering the actions, or starting the heartbeat of
  the other module, throws.\<close>

definition noActionsEnv :: env where
  "noActionsEnv = okEnv\<lparr>UpdateActions := (\<lambda>s. (Inl (TypeError ''choices undefined''), s))\<rparr>"

definition noHeartbeatEnv :: env where
  "noHeartbeatEnv =
     okEnv\<lparr>heartbeat_startHeartbeat := (\<lambda>s. (Inl (Error ''heartbeat unavailable''), s))\<rparr>"

definition goodConfig :: config where
  "goodConfig = \<lparr>host = Some ''10.0.0.5'', username = Some ''admin'', password = Some ''pw''\<rparr>"

definition emptyHostConfig :: config where
  "emptyHostConfig = \<lparr>host = Some [], username = Some ''admin'', password = Some ''pw''\<rparr>"

definition noPasswordConfig :: config where
  "noPasswordConfig = \<lparr>host = Some ''10.0.0.5'', username = Some ''admin'', password = None\<rparr>"

text \<open>The instance after \<open>init\<close> with a complete configuration and a reachable device:
  status \<open>Ok\<close>, heartbeat running.\<close>

definition connected :: ModuleInstance where
  "connected = snd (init okEnv goodConfig constructor)"

text \<open>Two requests as the heartbeat and an action would sign them.\<close>

definition heartbeatRequest :: request where
  "heartbeatRequest = (''GET'', ''/api/pid'', ''tieline'', ''n1'', ''admin'', ''pw'')"

definition actionRequest :: request where
  "actionRequest = (''POST'', ''/api/matrix'', ''tieline'', ''n1'', ''admin'', ''pw'')"

text \<open>An authenticator that signs its second request through \<open>digestAuth\<close> of the
  instance, and is given a new nonce by the device.\<close>

definition signingEnv :: env where
  "signingEnv =
     okEnv\<lparr>auth_authenticate :=
       (\<lambda>s. (Inr (Some \<lparr>res_authHeader = Some ''Digest h3'', res_csrfToken = Some ''t3'',
                          res_realm = Some ''tieline'', res_nonce = Some ''n2''\<rparr>),
             snd (digestAuth okEnv ''GET'' ''/api/auth'' ''tieline'' ''n2'' ''admin'' ''pw'' s)))\<rparr>"

text \<open>The connected instance after a heartbeat request and an action request.\<close>

definition busy :: ModuleInstance where
  "busy = snd (digestAuths okEnv [heartbeatRequest, actionRequest] connected)"

text \<open>The instance after \<open>init\<close> with a complete configuration while the device is
  down: status \<open>ConnectionFailure\<close>, one reconnect pending.\<close>

definition failedOnce :: ModuleInstance where
  "failedOnce = snd (init downEnv goodConfig constructor)"

section \<open>Lemmas on the timers\<close>

lemma call_fst [simp]: "fst (call c f s) = fst (f s)"
  by (simp add: call_def split: prod.splits)

lemma call_snd [simp]: "snd (call c f s) = (snd (f s))\<lparr>calls := calls s @ [c]\<rparr>"
  by (simp add: call_def split: prod.splits)

lemma scheduleReconnect_eq:
  "scheduleReconnect s =
     s\<lparr>timers :=
          (case reconnectTimeout s of
             Some h \<Rightarrow> filter (\<lambda>p. fst p \<noteq> h) (timers s)
           | None \<Rightarrow> timers s)
          @ [(nextTimer s, Timeout ConnectCallback (reconnectDelay (reconnectAttempts s)))],
        nextTimer := Suc (nextTimer s),
        reconnectAttempts := Suc (reconnectAttempts s),
        reconnectTimeout := Some (nextTimer s),
        logs := logs s @ [(LInfo, MsgSchedulingReconnect (reconnectDelay (reconnectAttempts s)))]\<rparr>"
  by (cases "reconnectTimeout s")
     (simp_all add: scheduleReconnect_def setTimeout_def clearTimeout_def log_def Let_def)

lemma stopHeartbeat_eq:
  "stopHeartbeat s =
     s\<lparr>timers :=
          (case heartbeatInterval s of
             Some h \<Rightarrow> filter (\<lambda>p. fst p \<noteq> h) (timers s)
           | None \<Rightarrow> timers s),
        heartbeatInterval := None\<rparr>"
  by (cases "heartbeatInterval s") (simp_all add: stopHeartbeat_def clearInterval_def)

lemma filter_at_most_one:
  "distinct (map fst xs) \<Longrightarrow> (\<forall>p \<in> set xs. P p \<longrightarrow> fst p = k) \<Longrightarrow> length (filter P xs) \<le> 1"
proof (induction xs)
  case Nil
  then show ?case by simp
next
  case (Cons x xs)
  show ?case
  proof (cases "P x")
    case False
    with Cons show ?thesis by simp
  next
    case True
    with Cons.prems have k: "fst x = k" by simp
    have "\<not> P q" if "q \<in> set xs" for q
    proof
      assume "P q"
      with that Cons.prems have "fst q = k" by simp
      with that k have "fst x \<in> fst ` set xs" by (metis image_eqI)
      with Cons.prems(1) show False by simp
    qed
    then have "filter P xs = []" by (simp add: filter_empty_conv)
    with True show ?thesis by simp
  qed
qed

lemma timerOk_reconnect:
  "timerOk s p \<Longrightarrow> isReconnectTimer (snd p) \<Longrightarrow> reconnectTimeout s = Some (fst p)"
  by (cases p; cases "snd p") auto

lemma timerOk_heartbeat:
  "timerOk s p \<Longrightarrow> isHeartbeatTimer (snd p) \<Longrightarrow> heartbeatInterval s = Some (fst p)"
  by (cases p; cases "snd p") auto

lemma timerOk_kind: "timerOk s p \<Longrightarrow> isReconnectTimer (snd p) \<or> isHeartbeatTimer (snd p)"
  by (cases p; cases "snd p") auto

lemma timerOk_fresh: "timerOk s p \<Longrightarrow> fst p < nextTimer s"
  by (cases p; cases "snd p") auto

lemma timersInv_counts:
  assumes "timersInv s"
  shows "length (reconnectTimers s) \<le> 1" and "length (heartbeatTimers s) \<le> 1"
proof -
  from assms have d: "distinct (map fst (timers s))" by (simp add: timersInv_def)
  from assms have ok: "\<forall>p \<in> set (timers s). timerOk s p"
    by (simp add: timersInv_def list_all_iff)
  have r: "\<forall>p \<in> set (timers s). isReconnectTimer (snd p) \<longrightarrow> fst p = the (reconnectTimeout s)"
    using ok by (metis timerOk_reconnect option.sel)
  have h: "\<forall>p \<in> set (timers s). isHeartbeatTimer (snd p) \<longrightarrow> fst p = the (heartbeatInterval s)"
    using ok by (metis timerOk_heartbeat option.sel)
  show "length (reconnectTimers s) \<le> 1"
    unfolding reconnectTimers_def by (rule filter_at_most_one [OF d r])
  show "length (heartbeatTimers s) \<le> 1"
    unfolding heartbeatTimers_def by (rule filter_at_most_one [OF d h])
qed

lemma timerOk_cong:
  "nextTimer s' = nextTimer s \<Longrightarrow> heartbeatInterval s' = heartbeatInterval s \<Longrightarrow>
   reconnectTimeout s' = reconnectTimeout s \<Longrightarrow> timerOk s' p = timerOk s p"
  by (cases p; cases "snd p") auto

lemma timersInv_sameTimers:
  assumes "sameTimers s s'" and "timersInv s"
  shows "timersInv s'"
proof -
  from assms(1) have "timerOk s' p = timerOk s p" for p
    by (intro timerOk_cong) (simp_all add: sameTimers_def)
  with assms show ?thesis by (simp add: sameTimers_def timersInv_def list_all_iff)
qed

lemma timersInv_scheduleReconnect:
  assumes "timersInv s"
  shows "timersInv (scheduleReconnect s)"
proof -
  let ?old = "case reconnectTimeout s of
                Some h \<Rightarrow> filter (\<lambda>p. fst p \<noteq> h) (timers s) | None \<Rightarrow> timers s"
  let ?s' = "scheduleReconnect s"
  from assms have d: "distinct (map fst (timers s))"
    and ok: "\<And>p. p \<in> set (timers s) \<Longrightarrow> timerOk s p"
    by (simp_all add: timersInv_def list_all_iff)
  have sub: "set ?old \<subseteq> set (timers s)" by (auto split: option.splits)
  have d_old: "distinct (map fst ?old)"
    using d by (auto simp: distinct_map_filter split: option.splits)
  have no_rec: "\<not> isReconnectTimer (snd p)" if "p \<in> set ?old" for p
  proof
    assume r: "isReconnectTimer (snd p)"
    from that sub have "p \<in> set (timers s)" by blast
    with r have "reconnectTimeout s = Some (fst p)" by (simp add: ok timerOk_reconnect)
    with that show False by simp
  qed
  have ok_old: "timerOk ?s' p" if "p \<in> set ?old" for p
  proof -
    from that sub have "timerOk s p" by (auto intro: ok)
    moreover from that have "\<not> isReconnectTimer (snd p)" by (rule no_rec)
    ultimately show ?thesis
      by (cases p; cases "snd p") (auto simp: scheduleReconnect_eq)
  qed
  have fresh: "nextTimer s \<notin> fst ` set ?old"
  proof
    assume "nextTimer s \<in> fst ` set ?old"
    then obtain p where "p \<in> set ?old" "fst p = nextTimer s" by auto
    with sub have "timerOk s p" by (auto intro: ok)
    with \<open>fst p = nextTimer s\<close> show False by (auto dest: timerOk_fresh)
  qed
  have t: "timers ?s' =
      ?old @ [(nextTimer s, Timeout ConnectCallback (reconnectDelay (reconnectAttempts s)))]"
    by (simp add: scheduleReconnect_eq)
  have "distinct (map fst (timers ?s'))"
    unfolding t using d_old fresh by simp
  moreover have "list_all (timerOk ?s') (timers ?s')"
    unfolding t using ok_old by (simp add: list_all_iff scheduleReconnect_eq)
  ultimately show ?thesis by (simp add: timersInv_def)
qed

lemma timersInv_stopHeartbeat:
  assumes "timersInv s"
  shows "timersInv (stopHeartbeat s)"
proof -
  let ?old = "case heartbeatInterval s of
                Some h \<Rightarrow> filter (\<lambda>p. fst p \<noteq> h) (timers s) | None \<Rightarrow> timers s"
  let ?s' = "stopHeartbeat s"
  from assms have d: "distinct (map fst (timers s))"
    and ok: "\<And>p. p \<in> set (timers s) \<Longrightarrow> timerOk s p"
    by (simp_all add: timersInv_def list_all_iff)
  have sub: "set ?old \<subseteq> set (timers s)" by (auto split: option.splits)
  have d_old: "distinct (map fst ?old)"
    using d by (auto simp: distinct_map_filter split: option.splits)
  have ok_old: "timerOk ?s' p" if "p \<in> set ?old" for p
  proof -
    from that sub have k: "timerOk s p" by (auto intro: ok)
    have "\<not> isHeartbeatTimer (snd p)"
    proof
      assume "isHeartbeatTimer (snd p)"
      with k have "heartbeatInterval s = Some (fst p)" by (simp add: timerOk_heartbeat)
      with that show False by simp
    qed
    with k show ?thesis
      by (cases p; cases "snd p") (auto simp: stopHeartbeat_eq)
  qed
  have t: "timers ?s' = ?old" by (simp add: stopHeartbeat_eq)
  show ?thesis
    unfolding timersInv_def t using d_old ok_old by (simp add: list_all_iff)
qed

lemma heartbeatTimers_stopHeartbeat:
  assumes "timersInv s"
  shows "heartbeatTimers (stopHeartbeat s) = []"
proof -
  have "\<not> isHeartbeatTimer (snd p)" if "p \<in> set (timers (stopHeartbeat s))" for p
  proof
    assume h: "isHeartbeatTimer (snd p)"
    from assms have "timersInv (stopHeartbeat s)" by (rule timersInv_stopHeartbeat)
    with that have "timerOk (stopHeartbeat s) p" by (simp add: timersInv_def list_all_iff)
    from this h have "heartbeatInterval (stopHeartbeat s) = Some (fst p)"
      by (rule timerOk_heartbeat)
    then show False by (simp add: stopHeartbeat_eq)
  qed
  then show ?thesis by (simp add: heartbeatTimers_def filter_empty_conv)
qed

section \<open>The reconnect delay\<close>

text \<open>
  C1. Whatever \<open>reconnectAttempts\<close> holds, \<open>scheduleReconnect\<close> arms a one-shot timer
  that calls \<open>connect\<close> after \<open>min 30000 (1000 * 2 ^ a)\<close> milliseconds, where \<open>a\<close> is
  the value of \<open>reconnectAttempts\<close> before the call; the call stores the timer's handle,
  adds one to \<open>reconnectAttempts\<close> and logs the delay. For 0 to 6 attempts the delays
  are 1000, 2000, 4000, 8000, 16000, 30000, 30000.
\<close>

theorem scheduleReconnect_delay:
  "reconnectTimeout (scheduleReconnect s) = Some (nextTimer s) \<and>
   last (timers (scheduleReconnect s)) =
     (nextTimer s, Timeout ConnectCallback (min 30000 (1000 * 2 ^ reconnectAttempts s))) \<and>
   reconnectAttempts (scheduleReconnect s) = reconnectAttempts s + 1 \<and>
   last (logs (scheduleReconnect s)) =
     (LInfo, MsgSchedulingReconnect (min 30000 (1000 * 2 ^ reconnectAttempts s))) \<and>
   map (\<lambda>a. snd (last (timers (scheduleReconnect (s\<lparr>reconnectAttempts := a\<rparr>)))))
       [0, 1, 2, 3, 4, 5, 6] =
     map (Timeout ConnectCallback) [1000, 2000, 4000, 8000, 16000, 30000, 30000]"
  by (simp add: scheduleReconnect_eq reconnectDelay_def)

section \<open>The timer invariant holds in every reachable state\<close>

lemma extRelD:
  assumes "extRel R e"
  shows "R s (snd (auth_authenticate e s))"
    and "R s (snd (matrix_fetchMatrixFeatures e s))"
    and "R s (snd (heartbeat_startHeartbeat e s))"
    and "R s (snd (heartbeat_sendHeartbeat e s))"
    and "R s (snd (UpdateActions e s))"
    and "R s (snd (UpdateFeedbacks e s))"
    and "R s (snd (UpdateVariableDefinitions e s))"
  using assms by (simp_all add: extRel_def)

lemma timersInv_frame:
  assumes "timersInv s"
    and "timers s' = timers s" and "nextTimer s' = nextTimer s"
    and "heartbeatInterval s' = heartbeatInterval s"
    and "reconnectTimeout s' = reconnectTimeout s"
  shows "timersInv s'"
  using assms timersInv_sameTimers [of s s'] by (simp add: sameTimers_def)

lemma timersInv_ext:
  assumes "extRel sameTimers e" and "timersInv s"
  shows "timersInv (snd (auth_authenticate e s))"
    and "timersInv (snd (matrix_fetchMatrixFeatures e s))"
    and "timersInv (snd (heartbeat_startHeartbeat e s))"
    and "timersInv (snd (heartbeat_sendHeartbeat e s))"
    and "timersInv (snd (UpdateActions e s))"
    and "timersInv (snd (UpdateFeedbacks e s))"
    and "timersInv (snd (UpdateVariableDefinitions e s))"
  using assms(2) extRelD [OF assms(1)] by (blast intro: timersInv_sameTimers)+

lemma timersInv_update [simp]:
  "timersInv (s\<lparr>config := a1\<rparr>) = timersInv s"
  "timersInv (s\<lparr>authHeader := a2\<rparr>) = timersInv s"
  "timersInv (s\<lparr>csrfToken := a3\<rparr>) = timersInv s"
  "timersInv (s\<lparr>realm := a4\<rparr>) = timersInv s"
  "timersInv (s\<lparr>nonce := a5\<rparr>) = timersInv s"
  "timersInv (s\<lparr>ncCounter := a6\<rparr>) = timersInv s"
  "timersInv (s\<lparr>lastAuthTime := a7\<rparr>) = timersInv s"
  "timersInv (s\<lparr>connectionFailed := a8\<rparr>) = timersInv s"
  "timersInv (s\<lparr>reconnectAttempts := a9\<rparr>) = timersInv s"
  "timersInv (s\<lparr>matrixVariables := b1\<rparr>) = timersInv s"
  "timersInv (s\<lparr>status := b2\<rparr>) = timersInv s"
  "timersInv (s\<lparr>logs := b3\<rparr>) = timersInv s"
  "timersInv (s\<lparr>calls := b4\<rparr>) = timersInv s"
  "timersInv (s\<lparr>ncSent := b5\<rparr>) = timersInv s"
  by (auto elim!: timersInv_frame)

lemma timersInv_log [simp]: "timersInv (log l m s) = timersInv s"
  by (simp add: log_def)

lemma timersInv_updateStatus [simp]: "timersInv (updateStatus st s) = timersInv s"
  by (simp add: updateStatus_def)

lemma timersInv_clearTimeout:
  assumes "timersInv s"
  shows "timersInv (clearTimeout h s)"
proof -
  from assms have d: "distinct (map fst (timers s))"
    and ok: "\<And>p. p \<in> set (timers s) \<Longrightarrow> timerOk s p"
    by (simp_all add: timersInv_def list_all_iff)
  have "timerOk (clearTimeout h s) p = timerOk s p" for p
    by (rule timerOk_cong) (simp_all add: clearTimeout_def)
  with d ok show ?thesis
    by (simp add: timersInv_def list_all_iff clearTimeout_def distinct_map_filter)
qed

lemma timersInv_authenticate:
  assumes "extRel sameTimers e" and "timersInv s"
  shows "timersInv (snd (authenticate e s))"
  using assms(2) timersInv_ext(1) [OF assms]
  by (simp add: authenticate_def case_prod_beta split: option.splits sum.splits)

lemma timersInv_startHeartbeat:
  assumes "extRel sameTimers e" and "timersInv s"
  shows "timersInv (snd (startHeartbeat e s))"
proof -
  let ?s0 = "stopHeartbeat s"
  let ?s1 = "snd (call CallHeartbeatStart (heartbeat_startHeartbeat e) ?s0)"
  have inv0: "timersInv ?s0" using assms(2) by (rule timersInv_stopHeartbeat)
  have inv1: "timersInv ?s1" using timersInv_ext(3) [OF assms(1) inv0] by simp
  have "sameTimers ?s0 (snd (heartbeat_startHeartbeat e ?s0))"
    using assms(1) by (rule extRelD)
  then have none: "heartbeatInterval ?s1 = None"
    by (simp add: sameTimers_def stopHeartbeat_eq)
  from inv1 have d: "distinct (map fst (timers ?s1))"
    and ok: "\<And>p. p \<in> set (timers ?s1) \<Longrightarrow> timerOk ?s1 p"
    by (simp_all add: timersInv_def list_all_iff)
  let ?s2 = "(snd (setInterval HeartbeatCallback 30000 ?s1))
               \<lparr>heartbeatInterval := Some (nextTimer ?s1)\<rparr>"
  have ok2: "timerOk ?s2 p" if "p \<in> set (timers ?s1)" for p
  proof -
    from that have k: "timerOk ?s1 p" by (rule ok)
    with none have "\<not> isHeartbeatTimer (snd p)"
      by (auto dest: timerOk_heartbeat)
    with k show ?thesis
      by (cases p; cases "snd p") (auto simp: setInterval_def)
  qed
  have fresh: "nextTimer ?s1 \<notin> fst ` set (timers ?s1)"
  proof
    assume "nextTimer ?s1 \<in> fst ` set (timers ?s1)"
    then obtain p where p: "p \<in> set (timers ?s1)" "fst p = nextTimer ?s1" by auto
    from p(1) have "fst p < nextTimer ?s1" by (intro timerOk_fresh ok)
    with p(2) show False by simp
  qed
  have inv2: "timersInv ?s2"
    using d fresh ok2 by (simp add: timersInv_def list_all_iff setInterval_def)
  show ?thesis
  proof (cases "fst (heartbeat_startHeartbeat e ?s0)")
    case (Inl err)
    then have "snd (startHeartbeat e s) = ?s1"
      by (simp add: startHeartbeat_def case_prod_beta)
    with inv1 show ?thesis by simp
  next
    case (Inr u)
    then have "snd (startHeartbeat e s) = ?s2"
      by (simp add: startHeartbeat_def setInterval_def case_prod_beta)
    with inv2 show ?thesis by simp
  qed
qed

lemma timersInv_connectFailed: "timersInv s \<Longrightarrow> timersInv (connectFailed err s)"
  by (simp add: connectFailed_def timersInv_scheduleReconnect)

lemma timersInv_connectTry:
  assumes "extRel sameTimers e" and "timersInv s"
  shows "timersInv (snd (connectTry e s))"
proof -
  let ?s1 = "snd (authenticate e s)"
  let ?s2 = "snd (call CallFetchMatrixFeatures (matrix_fetchMatrixFeatures e) ?s1)"
  let ?s3 = "snd (updateActions e (log LDebug MsgVariablesAfterInit ?s2))"
  let ?s4 = "snd (startHeartbeat e ?s3)"
  have 1: "timersInv ?s1" using assms by (rule timersInv_authenticate)
  have 2: "timersInv ?s2" using timersInv_ext(2) [OF assms(1) 1] by simp
  have 3: "timersInv ?s3"
    using timersInv_ext(5) [OF assms(1), of "log LDebug MsgVariablesAfterInit ?s2"] 2
    by (simp add: updateActions_def)
  have 4: "timersInv ?s4" using assms(1) 3 by (rule timersInv_startHeartbeat)
  show ?thesis
    using 1 2 3 4
    by (simp add: connectTry_def case_prod_beta split: sum.splits)
qed

lemma timersInv_connect:
  assumes "extRel sameTimers e" and "timersInv s"
  shows "timersInv (connect e s)"
  using timersInv_connectTry [OF assms]
  by (simp add: connect_def case_prod_beta timersInv_connectFailed split: sum.splits)

lemma timersInv_init:
  assumes "extRel sameTimers e" and "timersInv s"
  shows "timersInv (snd (init e c s))"
proof -
  let ?s0 = "updateStatus Connecting (s\<lparr>config := Some c\<rparr>)"
  let ?s1 = "snd (updateFeedbacks e ?s0)"
  let ?s2 = "snd (updateVariableDefinitions e ?s1)"
  have 0: "timersInv ?s0" using assms(2) by simp
  have 1: "timersInv ?s1"
    using timersInv_ext(6) [OF assms(1) 0] by (simp add: updateFeedbacks_def)
  have 2: "timersInv ?s2"
    using timersInv_ext(7) [OF assms(1) 1] by (simp add: updateVariableDefinitions_def)
  have 3: "timersInv (connect e (log LInfo MsgInitializing ?s2))"
    using 2 by (simp add: timersInv_connect [OF assms(1)])
  show ?thesis
    using 1 2 3
    by (simp add: init_def case_prod_beta split: sum.splits option.splits)
qed

lemma timersInv_configUpdated:
  assumes "extRel sameTimers e" and "timersInv s"
  shows "timersInv (configUpdated e c s)"
  using assms(2)
  by (simp add: configUpdated_def Let_def timersInv_connect [OF assms(1)]
        timersInv_stopHeartbeat)

lemma timersInv_heartbeatCallback:
  assumes "extRel sameTimers e" and "timersInv s"
  shows "timersInv (heartbeatCallback e s)"
  using timersInv_ext(4) [OF assms]
  by (simp add: heartbeatCallback_def case_prod_beta timersInv_scheduleReconnect
        timersInv_stopHeartbeat split: sum.splits option.splits)

lemma timersInv_destroy: "timersInv s \<Longrightarrow> timersInv (destroy s)"
  by (simp add: destroy_def Let_def timersInv_stopHeartbeat timersInv_clearTimeout
        split: option.splits)

lemma timersInv_fire:
  assumes "extRel sameTimers e" and "timersInv s"
  shows "timersInv (fire e h s)"
  using assms(2)
  by (simp add: fire_def runCallback_def timersInv_connect [OF assms(1)]
        timersInv_heartbeatCallback [OF assms(1)] timersInv_clearTimeout
        split: option.splits timer.splits callback.splits)

lemma timersInv_constructor: "timersInv constructor"
  by (simp add: timersInv_def constructor_def)

lemma reachable_timersInv: "reachable s \<Longrightarrow> timersInv s"
proof (induction rule: reachable.induct)
  case r_constructor
  show ?case by (rule timersInv_constructor)
next
  case (r_init s e c)
  then show ?case by (simp add: timersInv_init)
next
  case (r_configUpdated s e c)
  then show ?case by (simp add: timersInv_configUpdated)
next
  case (r_connect s e)
  then show ?case by (simp add: timersInv_connect)
next
  case (r_scheduleReconnect s)
  then show ?case by (simp add: timersInv_scheduleReconnect)
next
  case (r_startHeartbeat s e)
  then show ?case by (simp add: timersInv_startHeartbeat)
next
  case (r_stopHeartbeat s)
  then show ?case by (simp add: timersInv_stopHeartbeat)
next
  case (r_destroy s)
  then show ?case by (simp add: timersInv_destroy)
next
  case (r_fire s e h)
  then show ?case by (simp add: timersInv_fire)
next
  case (r_other s s')
  then show ?case by (blast intro: timersInv_sameTimers)
qed

section \<open>At most one timer of each kind\<close>

lemma reconnectTimers_scheduleReconnect:
  assumes "timersInv s"
  shows "reconnectTimers (scheduleReconnect s) =
           [(nextTimer s, Timeout ConnectCallback (reconnectDelay (reconnectAttempts s)))]"
proof -
  let ?old = "case reconnectTimeout s of
                Some h \<Rightarrow> filter (\<lambda>p. fst p \<noteq> h) (timers s) | None \<Rightarrow> timers s"
  from assms have ok: "\<And>p. p \<in> set (timers s) \<Longrightarrow> timerOk s p"
    by (simp add: timersInv_def list_all_iff)
  have "\<not> isReconnectTimer (snd p)" if "p \<in> set ?old" for p
  proof
    assume r: "isReconnectTimer (snd p)"
    from that have "p \<in> set (timers s)" by (auto split: option.splits)
    with r have "reconnectTimeout s = Some (fst p)" by (simp add: ok timerOk_reconnect)
    with that show False by simp
  qed
  then have "filter (\<lambda>p. isReconnectTimer (snd p)) ?old = []"
    by (simp add: filter_empty_conv)
  then show ?thesis
    by (simp add: reconnectTimers_def scheduleReconnect_eq)
qed

lemma heartbeatTimers_none:
  assumes "timersInv s" and "heartbeatInterval s = None"
  shows "heartbeatTimers s = []"
proof -
  have "\<not> isHeartbeatTimer (snd p)" if "p \<in> set (timers s)" for p
  proof
    assume h: "isHeartbeatTimer (snd p)"
    from assms(1) that have "timerOk s p" by (simp add: timersInv_def list_all_iff)
    from this h have "heartbeatInterval s = Some (fst p)" by (rule timerOk_heartbeat)
    with assms(2) show False by simp
  qed
  then show ?thesis by (simp add: heartbeatTimers_def filter_empty_conv)
qed

lemma heartbeatTimers_startHeartbeat:
  assumes "extRel sameTimers e" and "timersInv s"
  shows "heartbeatTimers (snd (startHeartbeat e s)) =
           (case fst (startHeartbeat e s) of
              Inl err \<Rightarrow> []
            | Inr u \<Rightarrow> [(nextTimer s, Interval HeartbeatCallback 30000)])"
proof -
  let ?s0 = "stopHeartbeat s"
  let ?s1 = "snd (call CallHeartbeatStart (heartbeat_startHeartbeat e) ?s0)"
  have inv0: "timersInv ?s0" using assms(2) by (rule timersInv_stopHeartbeat)
  have inv1: "timersInv ?s1" using timersInv_ext(3) [OF assms(1) inv0] by simp
  have same: "sameTimers ?s0 (snd (heartbeat_startHeartbeat e ?s0))"
    using assms(1) by (rule extRelD)
  then have none: "heartbeatInterval ?s1 = None"
    by (simp add: sameTimers_def stopHeartbeat_eq)
  from same have nt: "nextTimer ?s1 = nextTimer s"
    by (simp add: sameTimers_def stopHeartbeat_eq)
  have empty: "heartbeatTimers ?s1 = []" using inv1 none by (rule heartbeatTimers_none)
  show ?thesis
  proof (cases "fst (heartbeat_startHeartbeat e ?s0)")
    case (Inl err)
    then show ?thesis
      using empty by (simp add: startHeartbeat_def case_prod_beta)
  next
    case (Inr u)
    then show ?thesis
      using empty nt
      by (simp add: startHeartbeat_def setInterval_def case_prod_beta heartbeatTimers_def)
  qed
qed

text \<open>
  C4. In every reachable state at most one reconnect timer is pending and at most one
  heartbeat timer is active. \<open>scheduleReconnect\<close> clears the pending reconnect timer
  before it arms the new one, so after one call, and after two calls in a row, exactly
  one is pending; \<open>startHeartbeat\<close> stops the active heartbeat first, so afterwards
  the only heartbeat timer is the new one (none if \<open>heartbeat.startHeartbeat\<close> threw).
  The other modules are assumed to leave the timers and the two handle fields alone.
\<close>

theorem at_most_one_timer:
  assumes "reachable s"
  shows "length (reconnectTimers s) \<le> 1 \<and> length (heartbeatTimers s) \<le> 1 \<and>
         reconnectTimers (scheduleReconnect s) =
           [(nextTimer s, Timeout ConnectCallback (reconnectDelay (reconnectAttempts s)))] \<and>
         length (reconnectTimers (scheduleReconnect (scheduleReconnect s))) = 1 \<and>
         heartbeatTimers (stopHeartbeat s) = [] \<and>
         (\<forall>e. extRel sameTimers e \<longrightarrow>
            heartbeatTimers (snd (startHeartbeat e s)) =
              (case fst (startHeartbeat e s) of
                 Inl err \<Rightarrow> []
               | Inr u \<Rightarrow> [(nextTimer s, Interval HeartbeatCallback 30000)]))"
proof -
  from assms have inv: "timersInv s" by (rule reachable_timersInv)
  then have inv': "timersInv (scheduleReconnect s)" by (rule timersInv_scheduleReconnect)
  show ?thesis
    using timersInv_counts [OF inv] reconnectTimers_scheduleReconnect [OF inv]
      reconnectTimers_scheduleReconnect [OF inv'] heartbeatTimers_stopHeartbeat [OF inv]
      heartbeatTimers_startHeartbeat [OF _ inv]
    by simp
qed

text \<open>The example state, evaluated.\<close>

lemma connected_eq:
  "connected =
     \<lparr>config = Some goodConfig, authHeader = Some ''Digest h1'', csrfToken = Some ''t1'',
      realm = Some ''tieline'', nonce = Some ''n1'', ncCounter = 1,
      heartbeatInterval = Some 0, lastAuthTime = None, connectionFailed = False,
      reconnectTimeout = None, reconnectAttempts = 0,
      matrixVariables = Some [''sources'' \<mapsto> [''A'', ''B'']], status = Some Ok,
      logs = [(LInfo, MsgInitializing), (LDebug, MsgVariablesAfterInit)],
      timers = [(0, Interval HeartbeatCallback 30000)], nextTimer = 1,
      calls = [CallUpdateFeedbacks, CallUpdateVariableDefinitions, CallAuthAuthenticate,
               CallFetchMatrixFeatures, CallUpdateActions, CallHeartbeatStart],
      ncSent = []\<rparr>"
  by (simp add: connected_def init_def connect_def connectTry_def authenticate_def
        startHeartbeat_def stopHeartbeat_def setInterval_def updateActions_def
        updateFeedbacks_def updateVariableDefinitions_def call_def log_def updateStatus_def
        okEnv_def goodConfig_def constructor_def notConfigured_def falsy_def)

lemma okEnv_sameTimers: "extRel sameTimers okEnv"
  by (simp add: extRel_def sameTimers_def okEnv_def)

lemma downEnv_sameTimers: "extRel sameTimers downEnv"
  by (simp add: extRel_def sameTimers_def downEnv_def okEnv_def)

lemma connected_reachable: "reachable connected"
  unfolding connected_def by (intro r_init r_constructor okEnv_sameTimers)

theorem at_most_one_timer_witness:
  "reachable connected \<and>
   length (reconnectTimers connected) \<le> 1 \<and> length (heartbeatTimers connected) \<le> 1 \<and>
   heartbeatTimers connected = [(0, Interval HeartbeatCallback 30000)] \<and>
   reconnectTimers (scheduleReconnect connected) = [(1, Timeout ConnectCallback 1000)] \<and>
   length (reconnectTimers (scheduleReconnect (scheduleReconnect connected))) = 1 \<and>
   heartbeatTimers (stopHeartbeat connected) = [] \<and>
   heartbeatTimers (snd (startHeartbeat okEnv connected)) =
     [(1, Interval HeartbeatCallback 30000)]"
proof -
  have f: "fst (startHeartbeat okEnv connected) = Inr ()"
    by (simp add: startHeartbeat_def case_prod_beta okEnv_def)
  have h: "heartbeatTimers connected = [(0, Interval HeartbeatCallback 30000)]"
    by (simp add: connected_eq heartbeatTimers_def)
  show ?thesis
    using at_most_one_timer [OF connected_reachable] okEnv_sameTimers f h connected_reachable
    by (simp add: connected_eq reconnectDelay_def)
qed

section \<open>Teardown\<close>

lemma destroy_eq:
  "destroy s =
     s\<lparr>timers :=
          filter (\<lambda>p. Some (fst p) \<noteq> heartbeatInterval s \<and> Some (fst p) \<noteq> reconnectTimeout s)
            (timers s),
        heartbeatInterval := None\<rparr>"
  by (cases "heartbeatInterval s"; cases "reconnectTimeout s")
     (auto simp: destroy_def stopHeartbeat_eq clearTimeout_def Let_def intro!: filter_cong)

lemma timers_destroy:
  assumes "timersInv s"
  shows "timers (destroy s) = []"
proof -
  have "Some (fst p) = heartbeatInterval s \<or> Some (fst p) = reconnectTimeout s"
    if "p \<in> set (timers s)" for p
  proof -
    from assms that have k: "timerOk s p" by (simp add: timersInv_def list_all_iff)
    then show ?thesis
      using timerOk_kind [OF k] by (auto dest: timerOk_reconnect timerOk_heartbeat)
  qed
  then show ?thesis by (auto simp: destroy_eq filter_empty_conv)
qed

text \<open>
  C9. Whatever the state of the instance (heartbeat active or not, reconnect timer
  pending or not), \<open>destroy\<close> clears the heartbeat timer and the pending reconnect timer:
  the timers whose handles the instance holds are no longer armed, \<open>heartbeatInterval\<close>
  is \<open>null\<close>, and in a reachable state no timer of the instance is left.
\<close>

theorem destroy_clears_timers:
  "heartbeatInterval (destroy s) = None \<and>
   (\<forall>p \<in> set (timers (destroy s)).
      Some (fst p) \<noteq> heartbeatInterval s \<and> Some (fst p) \<noteq> reconnectTimeout s) \<and>
   (reachable s \<longrightarrow> timers (destroy s) = [])"
  using timers_destroy [OF reachable_timersInv, of s] by (simp add: destroy_eq)

theorem destroy_clears_timers_witness:
  "reachable (scheduleReconnect connected) \<and>
   timers (scheduleReconnect connected) =
     [(0, Interval HeartbeatCallback 30000), (1, Timeout ConnectCallback 1000)] \<and>
   timers (destroy (scheduleReconnect connected)) = [] \<and>
   heartbeatInterval (destroy (scheduleReconnect connected)) = None"
proof -
  have r: "reachable (scheduleReconnect connected)"
    by (intro r_scheduleReconnect connected_reachable)
  have t: "timers (scheduleReconnect connected) =
     [(0, Interval HeartbeatCallback 30000), (1, Timeout ConnectCallback 1000)]"
    by (simp add: scheduleReconnect_eq connected_eq reconnectDelay_def)
  show ?thesis
    using destroy_clears_timers [of "scheduleReconnect connected"] r t by simp
qed

section \<open>The nonce counter of successive requests\<close>

lemma digestAuth_simps [simp]:
  "fst (digestAuth e method uri rlm nnc usr pwd s) =
     auth_digestAuth e method uri rlm nnc usr pwd (ncCounter s)"
  "ncCounter (snd (digestAuth e method uri rlm nnc usr pwd s)) = ncCounter s + 1"
  "ncSent (snd (digestAuth e method uri rlm nnc usr pwd s)) = ncSent s @ [ncCounter s]"
  by (simp_all add: digestAuth_def)

lemma upt_first: "[c ..< Suc (c + n)] = c # [Suc c ..< Suc (c + n)]"
  by (simp add: upt_conv_Cons del: upt_Suc)

lemma digestAuths_counter:
  "ncCounter (snd (digestAuths e rs s)) = ncCounter s + length rs"
proof (induction rs arbitrary: s)
  case Nil
  show ?case by simp
next
  case (Cons r rs)
  obtain mth uri rlm nnc usr pwd where r: "r = (mth, uri, rlm, nnc, usr, pwd)"
    by (cases r) auto
  show ?case
    using Cons.IH [of "snd (digestAuth e mth uri rlm nnc usr pwd s)"]
    by (simp add: r case_prod_beta)
qed

lemma digestAuths_sent:
  "ncSent (snd (digestAuths e rs s)) =
     ncSent s @ [ncCounter s ..< ncCounter s + length rs]"
proof (induction rs arbitrary: s)
  case Nil
  show ?case by simp
next
  case (Cons r rs)
  obtain mth uri rlm nnc usr pwd where r: "r = (mth, uri, rlm, nnc, usr, pwd)"
    by (cases r) auto
  show ?case
    using Cons.IH [of "snd (digestAuth e mth uri rlm nnc usr pwd s)"]
    by (simp add: r case_prod_beta upt_first del: upt_Suc)
qed

lemma digestAuths_results:
  "fst (digestAuths e rs s) =
     map2 (\<lambda>(method, uri, rlm, nnc, usr, pwd) nc. auth_digestAuth e method uri rlm nnc usr pwd nc)
       rs [ncCounter s ..< ncCounter s + length rs]"
proof (induction rs arbitrary: s)
  case Nil
  show ?case by simp
next
  case (Cons r rs)
  obtain mth uri rlm nnc usr pwd where r: "r = (mth, uri, rlm, nnc, usr, pwd)"
    by (cases r) auto
  show ?case
    using Cons.IH [of "snd (digestAuth e mth uri rlm nnc usr pwd s)"]
    by (simp add: r case_prod_beta upt_first del: upt_Suc)
qed

text \<open>
  C5. For every sequence of requests issued one after the other through \<open>digestAuth\<close>,
  from any state of the instance: the request at position \<open>k\<close> is computed by
  \<open>auth.digestAuth\<close> with the nonce count \<open>ncCounter + k\<close>, so consecutive requests
  carry counts that increase by exactly one, no count is used twice, and the one
  counter of the instance has advanced by the number of requests. From the constructed
  instance the counts are 1, 2, 3, ...
\<close>

theorem digestAuth_nc_sequence:
  "fst (digestAuths e rs s) =
     map2 (\<lambda>(method, uri, rlm, nnc, usr, pwd) nc. auth_digestAuth e method uri rlm nnc usr pwd nc)
       rs [ncCounter s ..< ncCounter s + length rs] \<and>
   drop (length (ncSent s)) (ncSent (snd (digestAuths e rs s))) =
     [ncCounter s ..< ncCounter s + length rs] \<and>
   (\<forall>i. Suc i < length rs \<longrightarrow>
      drop (length (ncSent s)) (ncSent (snd (digestAuths e rs s))) ! Suc i =
      drop (length (ncSent s)) (ncSent (snd (digestAuths e rs s))) ! i + 1) \<and>
   distinct (drop (length (ncSent s)) (ncSent (snd (digestAuths e rs s)))) \<and>
   ncCounter (snd (digestAuths e rs s)) = ncCounter s + length rs \<and>
   ncSent (snd (digestAuths e rs constructor)) = [1 ..< 1 + length rs]"
proof -
  have c: "ncSent (snd (digestAuths e rs constructor)) = [1 ..< 1 + length rs]"
    by (simp add: digestAuths_sent constructor_def del: upt_Suc)
  show ?thesis
    using c
    by (simp add: digestAuths_results digestAuths_sent digestAuths_counter del: upt_Suc)
qed

theorem digestAuth_nc_sequence_witness:
  "drop (length (ncSent connected))
     (ncSent (snd (digestAuths okEnv [heartbeatRequest, actionRequest, heartbeatRequest]
                     connected))) = [1, 2, 3] \<and>
   ncCounter (snd (digestAuths okEnv [heartbeatRequest, actionRequest, heartbeatRequest]
                     connected)) = 4 \<and>
   ncSent (snd (digestAuths okEnv [heartbeatRequest, actionRequest, heartbeatRequest]
                  constructor)) = [1, 2, 3] \<and>
   drop (length (ncSent connected))
     (ncSent (snd (digestAuths okEnv [heartbeatRequest, actionRequest, heartbeatRequest]
                     connected))) ! Suc 0 =
   drop (length (ncSent connected))
     (ncSent (snd (digestAuths okEnv [heartbeatRequest, actionRequest, heartbeatRequest]
                     connected))) ! 0 + 1"
proof -
  let ?rs = "[heartbeatRequest, actionRequest, heartbeatRequest]"
  note A = digestAuth_nc_sequence [of okEnv ?rs connected]
  have n: "ncCounter connected = 1" by (simp add: connected_eq)
  have l: "length ?rs = 3" by simp
  have u: "[(1::nat) ..< 1 + 3] = [1, 2, 3]" by code_simp
  have "drop (length (ncSent connected)) (ncSent (snd (digestAuths okEnv ?rs connected)))
          = [ncCounter connected ..< ncCounter connected + length ?rs]"
    using A by (rule conjunct1 [OF conjunct2])
  then have 1: "drop (length (ncSent connected))
                  (ncSent (snd (digestAuths okEnv ?rs connected))) = [1, 2, 3]"
    unfolding n l u .
  have "ncCounter (snd (digestAuths okEnv ?rs connected)) = ncCounter connected + length ?rs"
    using A by blast
  then have 2: "ncCounter (snd (digestAuths okEnv ?rs connected)) = 4"
    unfolding n l by simp
  have "ncSent (snd (digestAuths okEnv ?rs constructor)) = [1 ..< 1 + length ?rs]"
    using A by blast
  then have 3: "ncSent (snd (digestAuths okEnv ?rs constructor)) = [1, 2, 3]"
    unfolding l u .
  have "Suc 0 < length ?rs" by simp
  with A have 4: "drop (length (ncSent connected))
        (ncSent (snd (digestAuths okEnv ?rs connected))) ! Suc 0 =
      drop (length (ncSent connected))
        (ncSent (snd (digestAuths okEnv ?rs connected))) ! 0 + 1"
    by blast
  from 1 2 3 4 show ?thesis by blast
qed

section \<open>Variable choices\<close>







section \<open>The nonce counter is never reset\<close>

lemma ncCounter_simple [simp]:
  "ncCounter (log l m s) = ncCounter s"
  "ncCounter (updateStatus st s) = ncCounter s"
  "ncCounter (scheduleReconnect s) = ncCounter s"
  "ncCounter (stopHeartbeat s) = ncCounter s"
  "ncCounter (clearTimeout h s) = ncCounter s"
  "ncCounter (destroy s) = ncCounter s"
  "ncCounter (snd (getVariableChoices ty s)) = ncCounter s"
  by (simp_all add: log_def updateStatus_def scheduleReconnect_eq stopHeartbeat_eq
        clearTimeout_def destroy_eq getVariableChoices_def Let_def
        split: option.splits jsval.splits)

lemma ncCounter_authenticate:
  assumes "extRel ncNotDecreased e"
  shows "ncCounter s \<le> ncCounter (snd (authenticate e s))"
  using extRelD(1) [OF assms, of s]
  by (simp add: authenticate_def ncNotDecreased_def case_prod_beta
        split: option.splits sum.splits)

lemma ncCounter_startHeartbeat:
  assumes "extRel ncNotDecreased e"
  shows "ncCounter s \<le> ncCounter (snd (startHeartbeat e s))"
  using extRelD(3) [OF assms, of "stopHeartbeat s"]
  by (simp add: startHeartbeat_def setInterval_def ncNotDecreased_def case_prod_beta
        split: sum.splits)

lemma ncCounter_connectTry:
  assumes "extRel ncNotDecreased e"
  shows "ncCounter s \<le> ncCounter (snd (connectTry e s))"
proof -
  let ?s1 = "snd (authenticate e s)"
  let ?s2 = "snd (call CallFetchMatrixFeatures (matrix_fetchMatrixFeatures e) ?s1)"
  let ?s3 = "snd (updateActions e (log LDebug MsgVariablesAfterInit ?s2))"
  let ?s4 = "snd (startHeartbeat e ?s3)"
  have 1: "ncCounter s \<le> ncCounter ?s1" using assms by (rule ncCounter_authenticate)
  have 2: "ncCounter ?s1 \<le> ncCounter ?s2"
    using extRelD(2) [OF assms, of ?s1] by (simp add: ncNotDecreased_def)
  have 3: "ncCounter ?s2 \<le> ncCounter ?s3"
    using extRelD(5) [OF assms, of "log LDebug MsgVariablesAfterInit ?s2"]
    by (simp add: ncNotDecreased_def updateActions_def log_def)
  have 4: "ncCounter ?s3 \<le> ncCounter ?s4" using assms by (rule ncCounter_startHeartbeat)
  show ?thesis
    using 1 2 3 4
    by (simp add: connectTry_def case_prod_beta updateStatus_def split: sum.splits)
qed

lemma ncCounter_connect:
  assumes "extRel ncNotDecreased e"
  shows "ncCounter s \<le> ncCounter (connect e s)"
  using ncCounter_connectTry [OF assms, of s]
  by (simp add: connect_def connectFailed_def case_prod_beta split: sum.splits)

lemma ncCounter_init:
  assumes "extRel ncNotDecreased e"
  shows "ncCounter s \<le> ncCounter (snd (init e c s))"
proof -
  let ?s0 = "updateStatus Connecting (s\<lparr>config := Some c\<rparr>)"
  let ?s1 = "snd (updateFeedbacks e ?s0)"
  let ?s2 = "snd (updateVariableDefinitions e ?s1)"
  have 1: "ncCounter s \<le> ncCounter ?s1"
    using extRelD(6) [OF assms, of ?s0]
    by (simp add: ncNotDecreased_def updateFeedbacks_def updateStatus_def)
  have 2: "ncCounter ?s1 \<le> ncCounter ?s2"
    using extRelD(7) [OF assms, of ?s1]
    by (simp add: ncNotDecreased_def updateVariableDefinitions_def)
  have 3: "ncCounter ?s2 \<le> ncCounter (connect e (log LInfo MsgInitializing ?s2))"
    using ncCounter_connect [OF assms, of "log LInfo MsgInitializing ?s2"] by simp
  show ?thesis
    using 1 2 3
    by (simp add: init_def case_prod_beta split: sum.splits option.splits)
qed

lemma ncCounter_configUpdated:
  assumes "extRel ncNotDecreased e"
  shows "ncCounter s \<le> ncCounter (configUpdated e c s)"
  using ncCounter_connect [OF assms, of "stopHeartbeat (s\<lparr>config := Some c\<rparr>)"]
  by (simp add: configUpdated_def Let_def)

lemma ncCounter_heartbeatCallback:
  assumes "extRel ncNotDecreased e"
  shows "ncCounter s \<le> ncCounter (heartbeatCallback e s)"
  using extRelD(4) [OF assms, of s]
  by (simp add: heartbeatCallback_def ncNotDecreased_def case_prod_beta
        split: sum.splits option.splits)

lemma ncCounter_fire:
  assumes "extRel ncNotDecreased e"
  shows "ncCounter s \<le> ncCounter (fire e h s)"
  using ncCounter_connect [OF assms, of "clearTimeout h s"] ncCounter_connect [OF assms, of s]
    ncCounter_heartbeatCallback [OF assms, of "clearTimeout h s"]
    ncCounter_heartbeatCallback [OF assms, of s]
  by (simp add: fire_def runCallback_def split: option.splits timer.splits callback.splits)

text \<open>
  C10. The constructor sets \<open>ncCounter\<close> to 1, and no method resets or decreases it:
  \<open>authenticate\<close> (which stores the new nonce), \<open>connect\<close>, \<open>init\<close>,
  \<open>configUpdated\<close>, \<open>startHeartbeat\<close>, the heartbeat callback and a timer firing
  leave it at least where it was, \<open>scheduleReconnect\<close>, \<open>stopHeartbeat\<close>,
  \<open>destroy\<close> and \<open>getVariableChoices\<close> leave it unchanged, and \<open>digestAuth\<close> adds
  one. So the request signed after a reconnect carries a count no smaller than the
  counter before it, not 1 again. The other modules are assumed not to decrease the
  counter themselves.
\<close>

theorem ncCounter_never_reset:
  assumes "extRel ncNotDecreased e"
  shows "ncCounter constructor = 1 \<and>
         ncCounter s \<le> ncCounter (snd (authenticate e s)) \<and>
         ncCounter s \<le> ncCounter (connect e s) \<and>
         ncCounter s \<le> ncCounter (snd (init e c s)) \<and>
         ncCounter s \<le> ncCounter (configUpdated e c s) \<and>
         ncCounter s \<le> ncCounter (snd (startHeartbeat e s)) \<and>
         ncCounter s \<le> ncCounter (heartbeatCallback e s) \<and>
         ncCounter s \<le> ncCounter (fire e h s) \<and>
         ncCounter (scheduleReconnect s) = ncCounter s \<and>
         ncCounter (stopHeartbeat s) = ncCounter s \<and>
         ncCounter (destroy s) = ncCounter s \<and>
         ncCounter (snd (getVariableChoices ty s)) = ncCounter s \<and>
         ncCounter (snd (digestAuth e method uri rlm nnc usr pwd s)) = ncCounter s + 1 \<and>
         ncSent (snd (digestAuth e method uri rlm nnc usr pwd (connect e s))) =
           ncSent (connect e s) @ [ncCounter (connect e s)]"
  using ncCounter_authenticate [OF assms, of s] ncCounter_connect [OF assms, of s]
    ncCounter_init [OF assms, of s c] ncCounter_configUpdated [OF assms, of s c]
    ncCounter_startHeartbeat [OF assms, of s] ncCounter_heartbeatCallback [OF assms, of s]
    ncCounter_fire [OF assms, of s h]
  by (simp add: constructor_def)

lemma busy_eq:
  "busy = connected\<lparr>ncCounter := 3, ncSent := [1, 2]\<rparr>"
  by (simp add: busy_def heartbeatRequest_def actionRequest_def digestAuth_def connected_eq)

lemma signingEnv_ncNotDecreased: "extRel ncNotDecreased signingEnv"
  by (simp add: extRel_def ncNotDecreased_def signingEnv_def okEnv_def digestAuth_def)

theorem ncCounter_never_reset_witness:
  "extRel ncNotDecreased signingEnv \<and>
   ncCounter busy = 3 \<and> nonce busy = Some ''n1'' \<and>
   nonce (connect signingEnv busy) = Some ''n2'' \<and>
   ncCounter (connect signingEnv busy) = 4 \<and>
   3 \<le> ncCounter (connect signingEnv busy) \<and>
   ncSent (snd (digestAuth signingEnv ''GET'' ''/api/pid'' ''tieline'' ''n2''
                  ''admin'' ''pw'' (connect signingEnv busy))) = [1, 2, 3, 4]"
proof -
  have c: "connect signingEnv busy =
      busy\<lparr>authHeader := Some ''Digest h3'', csrfToken := Some ''t3'', nonce := Some ''n2'',
           ncCounter := 4, heartbeatInterval := Some 1,
           logs := logs busy @ [(LDebug, MsgVariablesAfterInit)],
           timers := [(1, Interval HeartbeatCallback 30000)], nextTimer := 2,
           calls := calls busy @ [CallAuthAuthenticate, CallFetchMatrixFeatures,
                     CallUpdateActions, CallHeartbeatStart],
           ncSent := [1, 2, 3]\<rparr>"
    by (simp add: busy_eq connected_eq connect_def connectTry_def authenticate_def
          startHeartbeat_def stopHeartbeat_def setInterval_def clearInterval_def
          updateActions_def call_def log_def updateStatus_def digestAuth_def
          signingEnv_def okEnv_def goodConfig_def notConfigured_def falsy_def)
  show ?thesis
    using ncCounter_never_reset [OF signingEnv_ncNotDecreased, of busy]
      signingEnv_ncNotDecreased
    by (simp add: c) (simp add: busy_eq connected_eq)
qed

section \<open>The outcome of \<open>connect\<close>\<close>

lemma calls_simple [simp]:
  "calls (log l m s) = calls s"
  "calls (updateStatus st s) = calls s"
  "calls (scheduleReconnect s) = calls s"
  "calls (stopHeartbeat s) = calls s"
  "calls (clearTimeout h s) = calls s"
  by (simp_all add: log_def updateStatus_def scheduleReconnect_eq stopHeartbeat_eq
        clearTimeout_def)

lemma calls_authenticate:
  "calls (snd (authenticate e s)) =
     (case config s of
        None \<Rightarrow> calls s
      | Some c \<Rightarrow> if notConfigured c then calls s else calls s @ [CallAuthAuthenticate])"
  by (simp add: authenticate_def case_prod_beta split: option.splits sum.splits)

lemma calls_startHeartbeat:
  "calls (snd (startHeartbeat e s)) = calls s @ [CallHeartbeatStart]"
  by (simp add: startHeartbeat_def setInterval_def case_prod_beta split: sum.splits)

lemma authenticate_returns:
  "fst (authenticate e s) = Inr b \<Longrightarrow>
     calls (snd (authenticate e s)) = calls s @ [CallAuthAuthenticate]"
  by (auto simp: authenticate_def case_prod_beta split: option.splits sum.splits if_splits)

lemma connectTry_returns:
  assumes "fst (connectTry e s) = Inr u"
  shows "status (snd (connectTry e s)) = Some Ok"
    and "\<not> connectionFailed (snd (connectTry e s))"
    and "reconnectAttempts (snd (connectTry e s)) = 0"
    and "calls (snd (connectTry e s)) =
           calls s @ [CallAuthAuthenticate, CallFetchMatrixFeatures, CallUpdateActions,
                      CallHeartbeatStart]"
  using assms
  by (auto simp: connectTry_def case_prod_beta updateStatus_def updateActions_def
        calls_startHeartbeat authenticate_returns split: sum.splits)

lemma connectTry_authenticate_throws:
  assumes "fst (authenticate e s) = Inl err"
  shows "connectTry e s = (Inl err, snd (authenticate e s))"
  using assms by (simp add: connectTry_def case_prod_beta)

lemma connectTry_features_throw:
  assumes "fst (authenticate e s) = Inr b"
    and "fst (matrix_fetchMatrixFeatures e (snd (authenticate e s))) = Inl err"
  shows "connectTry e s =
           (Inl err,
            snd (call CallFetchMatrixFeatures (matrix_fetchMatrixFeatures e)
                   (snd (authenticate e s))))"
  using assms by (simp add: connectTry_def case_prod_beta)

lemma connect_returns:
  assumes "fst (connectTry e s) = Inr u"
  shows "connect e s = snd (connectTry e s)"
  using assms by (simp add: connect_def case_prod_beta)

lemma connect_throws:
  assumes "fst (connectTry e s) = Inl err"
  shows "connect e s = connectFailed err (snd (connectTry e s))"
  using assms by (simp add: connect_def case_prod_beta)

lemma connectFailed_eq:
  "connectFailed err s =
     scheduleReconnect
       (s\<lparr>logs := logs s @ [(LError, MsgConnectionFailed err)],
          status := Some ConnectionFailure, connectionFailed := True\<rparr>)"
  by (simp add: connectFailed_def log_def updateStatus_def)

lemma connectFailed_fields:
  "status (connectFailed err s) = Some ConnectionFailure"
  "connectionFailed (connectFailed err s)"
  "reconnectAttempts (connectFailed err s) = Suc (reconnectAttempts s)"
  "reconnectTimeout (connectFailed err s) = Some (nextTimer s)"
  "last (timers (connectFailed err s)) =
     (nextTimer s, Timeout ConnectCallback (reconnectDelay (reconnectAttempts s)))"
  "calls (connectFailed err s) = calls s"
  by (simp_all add: connectFailed_eq scheduleReconnect_eq)

lemma attempts_simple [simp]:
  "reconnectAttempts (log l m s) = reconnectAttempts s"
  "reconnectAttempts (updateStatus st s) = reconnectAttempts s"
  "reconnectAttempts (scheduleReconnect s) = Suc (reconnectAttempts s)"
  "reconnectAttempts (stopHeartbeat s) = reconnectAttempts s"
  "reconnectAttempts (clearTimeout h s) = reconnectAttempts s"
  "reconnectAttempts (destroy s) = reconnectAttempts s"
  "reconnectAttempts (snd (getVariableChoices ty s)) = reconnectAttempts s"
  "reconnectAttempts (snd (digestAuth e mth uri rlm nnc usr pwd s)) = reconnectAttempts s"
  by (simp_all add: log_def updateStatus_def scheduleReconnect_eq stopHeartbeat_eq
        clearTimeout_def destroy_eq getVariableChoices_def digestAuth_def Let_def
        split: option.splits jsval.splits)

lemma attempts_authenticate:
  assumes "extRel sameAttempts e"
  shows "reconnectAttempts (snd (authenticate e s)) = reconnectAttempts s"
  using extRelD(1) [OF assms, of s]
  by (simp add: authenticate_def sameAttempts_def case_prod_beta
        split: option.splits sum.splits)

lemma attempts_startHeartbeat:
  assumes "extRel sameAttempts e"
  shows "reconnectAttempts (snd (startHeartbeat e s)) = reconnectAttempts s"
  using extRelD(3) [OF assms, of "stopHeartbeat s"]
  by (simp add: startHeartbeat_def setInterval_def sameAttempts_def case_prod_beta
        split: sum.splits)

lemma attempts_connectTry_throws:
  assumes "extRel sameAttempts e" and "fst (connectTry e s) = Inl err"
  shows "reconnectAttempts (snd (connectTry e s)) = reconnectAttempts s"
proof -
  let ?s1 = "snd (authenticate e s)"
  let ?s2 = "snd (call CallFetchMatrixFeatures (matrix_fetchMatrixFeatures e) ?s1)"
  let ?s3 = "snd (updateActions e (log LDebug MsgVariablesAfterInit ?s2))"
  let ?s4 = "snd (startHeartbeat e ?s3)"
  have 1: "reconnectAttempts ?s1 = reconnectAttempts s"
    using assms(1) by (rule attempts_authenticate)
  have 2: "reconnectAttempts ?s2 = reconnectAttempts ?s1"
    using extRelD(2) [OF assms(1), of ?s1] by (simp add: sameAttempts_def)
  have 3: "reconnectAttempts ?s3 = reconnectAttempts ?s2"
    using extRelD(5) [OF assms(1), of "log LDebug MsgVariablesAfterInit ?s2"]
    by (simp add: sameAttempts_def updateActions_def log_def)
  have 4: "reconnectAttempts ?s4 = reconnectAttempts ?s3"
    using assms(1) by (rule attempts_startHeartbeat)
  show ?thesis
    using assms(2) 1 2 3 4
    by (simp add: connectTry_def case_prod_beta split: sum.splits)
qed

lemma attempts_heartbeatCallback:
  assumes "extRel sameAttempts e"
  shows "reconnectAttempts (heartbeatCallback e s) =
           (case fst (heartbeat_sendHeartbeat e s) of
              Inl err \<Rightarrow> Suc (reconnectAttempts s)
            | Inr r \<Rightarrow> reconnectAttempts s)"
  using extRelD(4) [OF assms, of s]
  by (simp add: heartbeatCallback_def sameAttempts_def case_prod_beta
        split: sum.splits option.splits)

lemma connect_stages:
  "(let s1 = snd (authenticate e s);
        s2 = snd (call CallFetchMatrixFeatures (matrix_fetchMatrixFeatures e) s1);
        s3 = snd (updateActions e (log LDebug MsgVariablesAfterInit s2));
        s4 = snd (startHeartbeat e s3)
    in (\<forall>err. fst (authenticate e s) = Inl err \<longrightarrow> connect e s = connectFailed err s1) \<and>
       (\<forall>b err. fst (authenticate e s) = Inr b \<and>
          fst (matrix_fetchMatrixFeatures e s1) = Inl err \<longrightarrow>
          connect e s = connectFailed err s2) \<and>
       (\<forall>b err. fst (authenticate e s) = Inr b \<and>
          fst (matrix_fetchMatrixFeatures e s1) = Inr () \<and>
          fst (UpdateActions e (log LDebug MsgVariablesAfterInit s2)) = Inl err \<longrightarrow>
          connect e s = connectFailed err s3) \<and>
       (\<forall>b err. fst (authenticate e s) = Inr b \<and>
          fst (matrix_fetchMatrixFeatures e s1) = Inr () \<and>
          fst (UpdateActions e (log LDebug MsgVariablesAfterInit s2)) = Inr () \<and>
          fst (startHeartbeat e s3) = Inl err \<longrightarrow>
          connect e s = connectFailed err s4) \<and>
       (\<forall>b. fst (authenticate e s) = Inr b \<and>
          fst (matrix_fetchMatrixFeatures e s1) = Inr () \<and>
          fst (UpdateActions e (log LDebug MsgVariablesAfterInit s2)) = Inr () \<and>
          fst (startHeartbeat e s3) = Inr () \<longrightarrow>
          fst (connectTry e s) = Inr () \<and>
          connect e s =
            (updateStatus Ok s4)\<lparr>connectionFailed := False, reconnectAttempts := 0\<rparr>) \<and>
       (fst (connectTry e s) = Inr () \<longrightarrow>
          (\<exists>b. fst (authenticate e s) = Inr b) \<and>
          fst (matrix_fetchMatrixFeatures e s1) = Inr () \<and>
          fst (UpdateActions e (log LDebug MsgVariablesAfterInit s2)) = Inr () \<and>
          fst (startHeartbeat e s3) = Inr ()))"
  unfolding Let_def
  by (intro conjI allI impI)
     (auto simp: connect_def connectTry_def case_prod_beta updateActions_def
           split: sum.splits)

lemma authenticate_result:
  "(\<forall>c'. config s = Some c' \<and> \<not> notConfigured c' \<longrightarrow>
      fst (authenticate e s) =
        (case fst (auth_authenticate e s) of
           Inl err \<Rightarrow> Inl err
         | Inr None \<Rightarrow> Inl (Error ''Authentication failed'')
         | Inr (Some r) \<Rightarrow> Inr True)) \<and>
   (config s = None \<or> (\<exists>c'. config s = Some c' \<and> notConfigured c') \<longrightarrow>
      (\<exists>err. fst (authenticate e s) = Inl err \<and> snd (authenticate e s) = s))"
  by (auto simp: authenticate_def case_prod_beta split: sum.splits option.splits)

lemma startHeartbeat_result:
  "fst (startHeartbeat e s) =
     (case fst (heartbeat_startHeartbeat e (stopHeartbeat s)) of
        Inl err \<Rightarrow> Inl err
      | Inr u \<Rightarrow> Inr ())"
  by (simp add: startHeartbeat_def setInterval_def case_prod_beta split: sum.splits)

lemma attempts_connect:
  assumes "extRel sameAttempts e"
  shows "reconnectAttempts (connect e s) =
           (case fst (connectTry e s) of
              Inl err \<Rightarrow> Suc (reconnectAttempts s)
            | Inr u \<Rightarrow> 0)"
proof (cases "fst (connectTry e s)")
  case (Inl err)
  then show ?thesis
    by (simp add: connect_throws connectFailed_fields attempts_connectTry_throws [OF assms])
next
  case (Inr u)
  then show ?thesis
    using connectTry_returns(3) [of e s u] by (simp add: connect_returns)
qed

lemma attempts_init:
  assumes "extRel sameAttempts e"
  shows "reconnectAttempts (snd (init e c s)) = reconnectAttempts s \<or>
         (\<exists>t. reconnectAttempts t = reconnectAttempts s \<and> snd (init e c s) = connect e t)"
proof -
  let ?s0 = "updateStatus Connecting (s\<lparr>config := Some c\<rparr>)"
  let ?s1 = "snd (updateFeedbacks e ?s0)"
  let ?s2 = "snd (updateVariableDefinitions e ?s1)"
  let ?t = "log LInfo MsgInitializing ?s2"
  have 1: "reconnectAttempts ?s1 = reconnectAttempts s"
    using extRelD(6) [OF assms, of ?s0]
    by (simp add: sameAttempts_def updateFeedbacks_def updateStatus_def)
  have 2: "reconnectAttempts ?s2 = reconnectAttempts s"
    using extRelD(7) [OF assms, of ?s1] 1
    by (simp add: sameAttempts_def updateVariableDefinitions_def)
  have 3: "reconnectAttempts ?t = reconnectAttempts s" using 2 by simp
  have "snd (init e c s) = ?s1 \<or> snd (init e c s) = ?s2 \<or>
        snd (init e c s) = updateStatus BadConfig (log LWarn MsgNotConfiguredYet ?s2) \<or>
        snd (init e c s) = connect e ?t"
    by (simp add: init_def case_prod_beta split: sum.splits option.splits)
  then show ?thesis
  proof (elim disjE)
    assume "snd (init e c s) = connect e ?t"
    with 3 show ?thesis by blast
  qed (simp_all add: 1 2)
qed

lemma attempts_configUpdated:
  "reconnectAttempts (configUpdated e c s) = reconnectAttempts s \<or>
   (\<exists>t. reconnectAttempts t = reconnectAttempts s \<and> configUpdated e c s = connect e t)"
proof (cases "notConfigured c")
  case True
  then show ?thesis by (simp add: configUpdated_def Let_def)
next
  case False
  have "reconnectAttempts (stopHeartbeat (s\<lparr>config := Some c\<rparr>)) = reconnectAttempts s"
    by simp
  moreover have "configUpdated e c s = connect e (stopHeartbeat (s\<lparr>config := Some c\<rparr>))"
    using False by (simp add: configUpdated_def Let_def)
  ultimately show ?thesis by blast
qed

lemma attempts_fire:
  assumes "extRel sameAttempts e"
  shows "reconnectAttempts s \<le> reconnectAttempts (fire e h s) \<or>
         (\<exists>t. reconnectAttempts t = reconnectAttempts s \<and> fire e h s = connect e t)"
proof -
  have hb: "reconnectAttempts t \<le> reconnectAttempts (heartbeatCallback e t)" for t
    by (simp add: attempts_heartbeatCallback [OF assms] split: sum.splits)
  have c: "reconnectAttempts (clearTimeout h s) = reconnectAttempts s" by simp
  have "fire e h s = s \<or> fire e h s = connect e (clearTimeout h s) \<or>
        fire e h s = connect e s \<or>
        fire e h s = heartbeatCallback e (clearTimeout h s) \<or>
        fire e h s = heartbeatCallback e s"
    by (simp add: fire_def runCallback_def split: option.splits timer.splits callback.splits)
  then show ?thesis
  proof (elim disjE)
    assume "fire e h s = connect e (clearTimeout h s)"
    with c show ?thesis by blast
  next
    assume "fire e h s = connect e s"
    then show ?thesis by blast
  next
    assume "fire e h s = heartbeatCallback e (clearTimeout h s)"
    with hb [of "clearTimeout h s"] c show ?thesis by simp
  next
    assume "fire e h s = heartbeatCallback e s"
    with hb [of s] show ?thesis by simp
  qed simp
qed

text \<open>
  C2. \<open>connect\<close> ends in one of two ways. When authentication, feature discovery,
  action registration and heartbeat start all return, and only then, its \<open>try\<close>
  block runs to the end: the status is \<open>Ok\<close>, \<open>connectionFailed\<close> is false and
  \<open>reconnectAttempts\<close> is 0. When one of the four throws, the rest of the block is
  skipped and the \<open>catch\<close> block runs on the state reached: the status is
  \<open>ConnectionFailure\<close>, \<open>connectionFailed\<close> is true and \<open>scheduleReconnect\<close> has
  run, so the reconnect timer is armed and \<open>reconnectAttempts\<close> is one more. When
  authentication or feature discovery throws, \<open>UpdateActions\<close> is not called.
  \<open>authenticate\<close> throws when the configuration is incomplete, when
  \<open>auth.authenticate\<close> throws and when it returns nothing; \<open>startHeartbeat\<close> throws
  when \<open>heartbeat.startHeartbeat\<close> does. \<open>reconnectAttempts\<close> is set back to 0 nowhere
  else: \<open>scheduleReconnect\<close> and the failing heartbeat add one, \<open>init\<close>,
  \<open>configUpdated\<close> and a timer firing change it only by running \<open>connect\<close> or the
  heartbeat callback from a state with the same count, and every other method leaves
  it as it was, the other modules assumed not to assign it.
\<close>

theorem connect_outcome:
  "(let s1 = snd (authenticate e s);
        s2 = snd (call CallFetchMatrixFeatures (matrix_fetchMatrixFeatures e) s1);
        s3 = snd (updateActions e (log LDebug MsgVariablesAfterInit s2));
        s4 = snd (startHeartbeat e s3)
    in (\<forall>err. fst (authenticate e s) = Inl err \<longrightarrow> connect e s = connectFailed err s1) \<and>
       (\<forall>b err. fst (authenticate e s) = Inr b \<and>
          fst (matrix_fetchMatrixFeatures e s1) = Inl err \<longrightarrow>
          connect e s = connectFailed err s2) \<and>
       (\<forall>b err. fst (authenticate e s) = Inr b \<and>
          fst (matrix_fetchMatrixFeatures e s1) = Inr () \<and>
          fst (UpdateActions e (log LDebug MsgVariablesAfterInit s2)) = Inl err \<longrightarrow>
          connect e s = connectFailed err s3) \<and>
       (\<forall>b err. fst (authenticate e s) = Inr b \<and>
          fst (matrix_fetchMatrixFeatures e s1) = Inr () \<and>
          fst (UpdateActions e (log LDebug MsgVariablesAfterInit s2)) = Inr () \<and>
          fst (startHeartbeat e s3) = Inl err \<longrightarrow>
          connect e s = connectFailed err s4) \<and>
       (\<forall>b. fst (authenticate e s) = Inr b \<and>
          fst (matrix_fetchMatrixFeatures e s1) = Inr () \<and>
          fst (UpdateActions e (log LDebug MsgVariablesAfterInit s2)) = Inr () \<and>
          fst (startHeartbeat e s3) = Inr () \<longrightarrow>
          fst (connectTry e s) = Inr () \<and>
          connect e s =
            (updateStatus Ok s4)\<lparr>connectionFailed := False, reconnectAttempts := 0\<rparr>) \<and>
       (fst (connectTry e s) = Inr () \<longrightarrow>
          (\<exists>b. fst (authenticate e s) = Inr b) \<and>
          fst (matrix_fetchMatrixFeatures e s1) = Inr () \<and>
          fst (UpdateActions e (log LDebug MsgVariablesAfterInit s2)) = Inr () \<and>
          fst (startHeartbeat e s3) = Inr ())) \<and>
   (\<forall>err t.
      connectFailed err t =
        scheduleReconnect
          (t\<lparr>logs := logs t @ [(LError, MsgConnectionFailed err)],
             status := Some ConnectionFailure, connectionFailed := True\<rparr>) \<and>
      status (connectFailed err t) = Some ConnectionFailure \<and>
      connectionFailed (connectFailed err t) \<and>
      reconnectTimeout (connectFailed err t) = Some (nextTimer t) \<and>
      last (timers (connectFailed err t)) =
        (nextTimer t, Timeout ConnectCallback (reconnectDelay (reconnectAttempts t))) \<and>
      reconnectAttempts (connectFailed err t) = Suc (reconnectAttempts t)) \<and>
   ((\<forall>c'. config s = Some c' \<and> \<not> notConfigured c' \<longrightarrow>
       fst (authenticate e s) =
         (case fst (auth_authenticate e s) of
            Inl err \<Rightarrow> Inl err
          | Inr None \<Rightarrow> Inl (Error ''Authentication failed'')
          | Inr (Some r) \<Rightarrow> Inr True)) \<and>
    (config s = None \<or> (\<exists>c'. config s = Some c' \<and> notConfigured c') \<longrightarrow>
       (\<exists>err. fst (authenticate e s) = Inl err \<and> snd (authenticate e s) = s))) \<and>
   fst (startHeartbeat e s) =
     (case fst (heartbeat_startHeartbeat e (stopHeartbeat s)) of
        Inl err \<Rightarrow> Inl err
      | Inr u \<Rightarrow> Inr ()) \<and>
   (reconnectAttempts (configUpdated e c s) = reconnectAttempts s \<or>
    (\<exists>t. reconnectAttempts t = reconnectAttempts s \<and> configUpdated e c s = connect e t)) \<and>
   (extRel sameAttempts e \<longrightarrow>
      reconnectAttempts (connect e s) =
        (case fst (connectTry e s) of
           Inl err \<Rightarrow> Suc (reconnectAttempts s)
         | Inr u \<Rightarrow> 0) \<and>
      (reconnectAttempts (snd (init e c s)) = reconnectAttempts s \<or>
       (\<exists>t. reconnectAttempts t = reconnectAttempts s \<and> snd (init e c s) = connect e t)) \<and>
      (reconnectAttempts s \<le> reconnectAttempts (fire e h s) \<or>
       (\<exists>t. reconnectAttempts t = reconnectAttempts s \<and> fire e h s = connect e t)) \<and>
      reconnectAttempts (heartbeatCallback e s) =
        (case fst (heartbeat_sendHeartbeat e s) of
           Inl err \<Rightarrow> Suc (reconnectAttempts s)
         | Inr r \<Rightarrow> reconnectAttempts s)) \<and>
   (fst (connectTry e s) = Inr () \<longrightarrow>
      status (connect e s) = Some Ok \<and> \<not> connectionFailed (connect e s) \<and>
      reconnectAttempts (connect e s) = 0 \<and>
      calls (connect e s) =
        calls s @ [CallAuthAuthenticate, CallFetchMatrixFeatures, CallUpdateActions,
                   CallHeartbeatStart]) \<and>
   (\<forall>err. fst (connectTry e s) = Inl err \<longrightarrow>
      connect e s = connectFailed err (snd (connectTry e s)) \<and>
      status (connect e s) = Some ConnectionFailure \<and> connectionFailed (connect e s) \<and>
      reconnectTimeout (connect e s) = Some (nextTimer (snd (connectTry e s))) \<and>
      last (timers (connect e s)) =
        (nextTimer (snd (connectTry e s)),
         Timeout ConnectCallback (reconnectDelay (reconnectAttempts (snd (connectTry e s))))) \<and>
      reconnectAttempts (connect e s) = Suc (reconnectAttempts (snd (connectTry e s)))) \<and>
   (\<forall>err. fst (authenticate e s) = Inl err \<longrightarrow>
      fst (connectTry e s) = Inl err \<and>
      CallUpdateActions \<notin> set (drop (length (calls s)) (calls (connect e s)))) \<and>
   (\<forall>b err. fst (authenticate e s) = Inr b \<and>
      fst (matrix_fetchMatrixFeatures e (snd (authenticate e s))) = Inl err \<longrightarrow>
      fst (connectTry e s) = Inl err \<and>
      calls (connect e s) = calls s @ [CallAuthAuthenticate, CallFetchMatrixFeatures]) \<and>
   (extRel sameAttempts e \<longrightarrow>
      (\<forall>err. fst (connectTry e s) = Inl err \<longrightarrow>
         reconnectAttempts (connect e s) = Suc (reconnectAttempts s)) \<and>
      reconnectAttempts (snd (authenticate e s)) = reconnectAttempts s \<and>
      reconnectAttempts (snd (startHeartbeat e s)) = reconnectAttempts s \<and>
      reconnectAttempts s \<le> reconnectAttempts (heartbeatCallback e s)) \<and>
   (notConfigured c \<longrightarrow> reconnectAttempts (configUpdated e c s) = reconnectAttempts s) \<and>
   reconnectAttempts (scheduleReconnect s) = Suc (reconnectAttempts s) \<and>
   reconnectAttempts (stopHeartbeat s) = reconnectAttempts s \<and>
   reconnectAttempts (destroy s) = reconnectAttempts s \<and>
   reconnectAttempts (snd (getVariableChoices ty s)) = reconnectAttempts s \<and>
   reconnectAttempts (snd (digestAuth e mth uri rlm nnc usr pwd s)) = reconnectAttempts s"
proof -
  have ok: "status (connect e s) = Some Ok \<and> \<not> connectionFailed (connect e s) \<and>
      reconnectAttempts (connect e s) = 0 \<and>
      calls (connect e s) =
        calls s @ [CallAuthAuthenticate, CallFetchMatrixFeatures, CallUpdateActions,
                   CallHeartbeatStart]"
    if "fst (connectTry e s) = Inr ()"
    using connectTry_returns [OF that] by (simp add: connect_returns [OF that])
  have fail: "connect e s = connectFailed err (snd (connectTry e s)) \<and>
      status (connect e s) = Some ConnectionFailure \<and> connectionFailed (connect e s) \<and>
      reconnectTimeout (connect e s) = Some (nextTimer (snd (connectTry e s))) \<and>
      last (timers (connect e s)) =
        (nextTimer (snd (connectTry e s)),
         Timeout ConnectCallback (reconnectDelay (reconnectAttempts (snd (connectTry e s))))) \<and>
      reconnectAttempts (connect e s) = Suc (reconnectAttempts (snd (connectTry e s)))"
    if "fst (connectTry e s) = Inl err" for err
    by (simp add: connect_throws [OF that] connectFailed_fields)
  have auth: "fst (connectTry e s) = Inl err \<and>
      CallUpdateActions \<notin> set (drop (length (calls s)) (calls (connect e s)))"
    if "fst (authenticate e s) = Inl err" for err
  proof -
    have t: "connectTry e s = (Inl err, snd (authenticate e s))"
      using that by (rule connectTry_authenticate_throws)
    then have f: "fst (connectTry e s) = Inl err" by simp
    show ?thesis
      by (simp add: f connect_throws [OF f] connectFailed_fields)
         (simp add: t calls_authenticate split: option.splits)
  qed
  have feat: "fst (connectTry e s) = Inl err \<and>
      calls (connect e s) = calls s @ [CallAuthAuthenticate, CallFetchMatrixFeatures]"
    if "fst (authenticate e s) = Inr b"
      and "fst (matrix_fetchMatrixFeatures e (snd (authenticate e s))) = Inl err" for b err
  proof -
    note t = connectTry_features_throw [OF that]
    then have f: "fst (connectTry e s) = Inl err" by simp
    show ?thesis
      by (simp add: f connect_throws [OF f] connectFailed_fields)
         (simp add: t authenticate_returns [OF that(1)])
  qed
  have att: "reconnectAttempts (connect e s) = Suc (reconnectAttempts s)"
    if "extRel sameAttempts e" and "fst (connectTry e s) = Inl err" for err
    by (simp add: connect_throws [OF that(2)] connectFailed_fields
          attempts_connectTry_throws [OF that])
  have hb: "reconnectAttempts s \<le> reconnectAttempts (heartbeatCallback e s)"
    if "extRel sameAttempts e"
    by (simp add: attempts_heartbeatCallback [OF that] split: sum.splits)
  have cfg: "reconnectAttempts (configUpdated e c s) = reconnectAttempts s"
    if "notConfigured c"
    using that by (simp add: configUpdated_def Let_def)
  have P1: "fst (connectTry e s) = Inr () \<longrightarrow>
      status (connect e s) = Some Ok \<and> \<not> connectionFailed (connect e s) \<and>
      reconnectAttempts (connect e s) = 0 \<and>
      calls (connect e s) =
        calls s @ [CallAuthAuthenticate, CallFetchMatrixFeatures, CallUpdateActions,
                   CallHeartbeatStart]"
    using ok by blast
  have P2: "\<forall>err. fst (connectTry e s) = Inl err \<longrightarrow>
      connect e s = connectFailed err (snd (connectTry e s)) \<and>
      status (connect e s) = Some ConnectionFailure \<and> connectionFailed (connect e s) \<and>
      reconnectTimeout (connect e s) = Some (nextTimer (snd (connectTry e s))) \<and>
      last (timers (connect e s)) =
        (nextTimer (snd (connectTry e s)),
         Timeout ConnectCallback (reconnectDelay (reconnectAttempts (snd (connectTry e s))))) \<and>
      reconnectAttempts (connect e s) = Suc (reconnectAttempts (snd (connectTry e s)))"
    using fail by blast
  have P3: "\<forall>err. fst (authenticate e s) = Inl err \<longrightarrow>
      fst (connectTry e s) = Inl err \<and>
      CallUpdateActions \<notin> set (drop (length (calls s)) (calls (connect e s)))"
    using auth by blast
  have P4: "\<forall>b err. fst (authenticate e s) = Inr b \<and>
      fst (matrix_fetchMatrixFeatures e (snd (authenticate e s))) = Inl err \<longrightarrow>
      fst (connectTry e s) = Inl err \<and>
      calls (connect e s) = calls s @ [CallAuthAuthenticate, CallFetchMatrixFeatures]"
    using feat by blast
  have P5: "extRel sameAttempts e \<longrightarrow>
      (\<forall>err. fst (connectTry e s) = Inl err \<longrightarrow>
         reconnectAttempts (connect e s) = Suc (reconnectAttempts s)) \<and>
      reconnectAttempts (snd (authenticate e s)) = reconnectAttempts s \<and>
      reconnectAttempts (snd (startHeartbeat e s)) = reconnectAttempts s \<and>
      reconnectAttempts s \<le> reconnectAttempts (heartbeatCallback e s)"
    using att hb attempts_authenticate [of e s] attempts_startHeartbeat [of e s] by blast
  have P6: "notConfigured c \<longrightarrow> reconnectAttempts (configUpdated e c s) = reconnectAttempts s"
    using cfg by blast
  have N2: "\<forall>err t.
      connectFailed err t =
        scheduleReconnect
          (t\<lparr>logs := logs t @ [(LError, MsgConnectionFailed err)],
             status := Some ConnectionFailure, connectionFailed := True\<rparr>) \<and>
      status (connectFailed err t) = Some ConnectionFailure \<and>
      connectionFailed (connectFailed err t) \<and>
      reconnectTimeout (connectFailed err t) = Some (nextTimer t) \<and>
      last (timers (connectFailed err t)) =
        (nextTimer t, Timeout ConnectCallback (reconnectDelay (reconnectAttempts t))) \<and>
      reconnectAttempts (connectFailed err t) = Suc (reconnectAttempts t)"
    by (intro allI conjI connectFailed_eq connectFailed_fields)
  have N5: "extRel sameAttempts e \<longrightarrow>
      reconnectAttempts (connect e s) =
        (case fst (connectTry e s) of
           Inl err \<Rightarrow> Suc (reconnectAttempts s)
         | Inr u \<Rightarrow> 0) \<and>
      (reconnectAttempts (snd (init e c s)) = reconnectAttempts s \<or>
       (\<exists>t. reconnectAttempts t = reconnectAttempts s \<and> snd (init e c s) = connect e t)) \<and>
      (reconnectAttempts s \<le> reconnectAttempts (fire e h s) \<or>
       (\<exists>t. reconnectAttempts t = reconnectAttempts s \<and> fire e h s = connect e t)) \<and>
      reconnectAttempts (heartbeatCallback e s) =
        (case fst (heartbeat_sendHeartbeat e s) of
           Inl err \<Rightarrow> Suc (reconnectAttempts s)
         | Inr r \<Rightarrow> reconnectAttempts s)"
    using attempts_connect [of e s] attempts_init [of e c s] attempts_fire [of e s h]
      attempts_heartbeatCallback [of e s]
    by blast
  show ?thesis
    by (intro conjI P1 P2 P3 P4 P5 P6 attempts_simple connect_stages N2 authenticate_result
          startHeartbeat_result attempts_configUpdated N5)
qed

lemma failedOnce_eq:
  "failedOnce =
     \<lparr>config = Some goodConfig, authHeader = None, csrfToken = None, realm = None,
      nonce = None, ncCounter = 1, heartbeatInterval = None, lastAuthTime = None,
      connectionFailed = True, reconnectTimeout = Some 0, reconnectAttempts = 1,
      matrixVariables = None, status = Some ConnectionFailure,
      logs = [(LInfo, MsgInitializing),
              (LError, MsgConnectionFailed (Error ''connect ECONNREFUSED'')),
              (LInfo, MsgSchedulingReconnect 1000)],
      timers = [(0, Timeout ConnectCallback 1000)], nextTimer = 1,
      calls = [CallUpdateFeedbacks, CallUpdateVariableDefinitions, CallAuthAuthenticate],
      ncSent = []\<rparr>"
  by (simp add: failedOnce_def init_def connect_def connectTry_def authenticate_def
        connectFailed_eq scheduleReconnect_eq reconnectDelay_def
        updateFeedbacks_def updateVariableDefinitions_def call_def log_def updateStatus_def
        downEnv_def okEnv_def goodConfig_def constructor_def notConfigured_def falsy_def)

lemma downEnv_sameAttempts: "extRel sameAttempts downEnv"
  by (simp add: extRel_def sameAttempts_def downEnv_def okEnv_def)

theorem connect_outcome_witness:
  "reconnectAttempts failedOnce = 1 \<and>
   fst (connectTry okEnv failedOnce) = Inr () \<and>
   status (connect okEnv failedOnce) = Some Ok \<and>
   \<not> connectionFailed (connect okEnv failedOnce) \<and>
   reconnectAttempts (connect okEnv failedOnce) = 0 \<and>
   fst (connectTry downEnv failedOnce) = Inl (Error ''connect ECONNREFUSED'') \<and>
   status (connect downEnv failedOnce) = Some ConnectionFailure \<and>
   connectionFailed (connect downEnv failedOnce) \<and>
   reconnectAttempts (connect downEnv failedOnce) = 2 \<and>
   last (timers (connect downEnv failedOnce)) = (1, Timeout ConnectCallback 2000) \<and>
   CallUpdateActions \<notin> set (drop (length (calls failedOnce))
                               (calls (connect downEnv failedOnce))) \<and>
   fst (connectTry noFeaturesEnv failedOnce) = Inl (Error ''HTTP 500'') \<and>
   calls (connect noFeaturesEnv failedOnce) =
     calls failedOnce @ [CallAuthAuthenticate, CallFetchMatrixFeatures] \<and>
   extRel sameAttempts downEnv \<and>
   reconnectAttempts (snd (authenticate downEnv failedOnce)) = 1 \<and>
   reconnectAttempts (heartbeatCallback downEnv failedOnce) \<ge> 1 \<and>
   notConfigured emptyHostConfig \<and>
   reconnectAttempts (configUpdated downEnv emptyHostConfig failedOnce) = 1 \<and>
   fst (UpdateActions noActionsEnv failedOnce) = Inl (TypeError ''choices undefined'') \<and>
   status (connect noActionsEnv failedOnce) = Some ConnectionFailure \<and>
   connectionFailed (connect noActionsEnv failedOnce) \<and>
   status (connect noHeartbeatEnv failedOnce) = Some ConnectionFailure \<and>
   reconnectAttempts (connect downEnv failedOnce) = Suc (reconnectAttempts failedOnce)"
proof -
  have c: "config failedOnce = Some goodConfig" "\<not> notConfigured goodConfig"
    by (simp_all add: failedOnce_eq goodConfig_def notConfigured_def falsy_def)
  have a1: "fst (authenticate downEnv failedOnce) = Inl (Error ''connect ECONNREFUSED'')"
    by (simp add: authenticate_def case_prod_beta c downEnv_def okEnv_def)
  have a2: "fst (authenticate noFeaturesEnv failedOnce) = Inr True"
    by (simp add: authenticate_def case_prod_beta c noFeaturesEnv_def okEnv_def)
  have a3: "fst (matrix_fetchMatrixFeatures noFeaturesEnv
                   (snd (authenticate noFeaturesEnv failedOnce))) = Inl (Error ''HTTP 500'')"
    by (simp add: noFeaturesEnv_def)
  have a4: "fst (connectTry okEnv failedOnce) = Inr ()"
    by (simp add: connectTry_def authenticate_def startHeartbeat_def updateActions_def
          case_prod_beta c okEnv_def)
  have a5: "snd (authenticate downEnv failedOnce) =
              failedOnce\<lparr>calls := calls failedOnce @ [CallAuthAuthenticate]\<rparr>"
    by (simp add: authenticate_def case_prod_beta c downEnv_def okEnv_def)
  have n: "nextTimer (snd (connectTry downEnv failedOnce)) = 1"
    "reconnectAttempts (snd (connectTry downEnv failedOnce)) = 1"
    unfolding connectTry_authenticate_throws [OF a1] a5
    by (simp_all add: failedOnce_eq)
  have f: "reconnectAttempts failedOnce = 1" by (simp add: failedOnce_eq)
  note old = conjunct2 [THEN conjunct2, THEN conjunct2, THEN conjunct2, THEN conjunct2,
                        THEN conjunct2]
  note O = connect_outcome [where e = okEnv and s = failedOnce, THEN old]
  note D = connect_outcome [where e = downEnv and s = failedOnce and c = emptyHostConfig,
                            THEN old]
  note D5 = connect_outcome [where e = downEnv and s = failedOnce,
                             THEN conjunct2, THEN conjunct2, THEN conjunct2, THEN conjunct2,
                             THEN conjunct2, THEN conjunct1]
  have b: "notConfigured emptyHostConfig"
    by (simp add: emptyHostConfig_def notConfigured_def falsy_def)
  from D downEnv_sameAttempts
  have "reconnectAttempts (snd (authenticate downEnv failedOnce)) = reconnectAttempts failedOnce \<and>
      reconnectAttempts failedOnce \<le> reconnectAttempts (heartbeatCallback downEnv failedOnce)"
    by blast
  then have p5: "reconnectAttempts (snd (authenticate downEnv failedOnce)) = 1 \<and>
      reconnectAttempts (heartbeatCallback downEnv failedOnce) \<ge> 1"
    by (simp add: f)
  from D b
  have "reconnectAttempts (configUpdated downEnv emptyHostConfig failedOnce) =
      reconnectAttempts failedOnce"
    by blast
  then have p6: "reconnectAttempts (configUpdated downEnv emptyHostConfig failedOnce) = 1"
    by (simp add: f)
  note N = connect_outcome [where e = noFeaturesEnv and s = failedOnce, THEN old]
  from O a4 have o: "status (connect okEnv failedOnce) = Some Ok \<and>
      \<not> connectionFailed (connect okEnv failedOnce) \<and>
      reconnectAttempts (connect okEnv failedOnce) = 0"
    by blast
  from D a1 have d1: "fst (connectTry downEnv failedOnce) = Inl (Error ''connect ECONNREFUSED'') \<and>
      CallUpdateActions \<notin> set (drop (length (calls failedOnce))
                                  (calls (connect downEnv failedOnce)))"
    by blast
  with D have "status (connect downEnv failedOnce) = Some ConnectionFailure \<and>
      connectionFailed (connect downEnv failedOnce) \<and>
      last (timers (connect downEnv failedOnce)) =
        (nextTimer (snd (connectTry downEnv failedOnce)),
         Timeout ConnectCallback
           (reconnectDelay (reconnectAttempts (snd (connectTry downEnv failedOnce))))) \<and>
      reconnectAttempts (connect downEnv failedOnce) =
        Suc (reconnectAttempts (snd (connectTry downEnv failedOnce)))"
    by blast
  then have d2: "status (connect downEnv failedOnce) = Some ConnectionFailure \<and>
      connectionFailed (connect downEnv failedOnce) \<and>
      last (timers (connect downEnv failedOnce)) = (1, Timeout ConnectCallback 2000) \<and>
      reconnectAttempts (connect downEnv failedOnce) = 2"
    by (simp add: n reconnectDelay_def)
  from N a2 a3 have n1: "fst (connectTry noFeaturesEnv failedOnce) = Inl (Error ''HTTP 500'') \<and>
      calls (connect noFeaturesEnv failedOnce) =
        calls failedOnce @ [CallAuthAuthenticate, CallFetchMatrixFeatures]"
    by blast
  note NA = connect_outcome [where e = noActionsEnv and s = failedOnce, THEN conjunct1,
                             unfolded Let_def]
  note NH = connect_outcome [where e = noHeartbeatEnv and s = failedOnce, THEN conjunct1,
                             unfolded Let_def]
  note CF = connect_outcome [where e = noActionsEnv and s = failedOnce, THEN conjunct2,
                             THEN conjunct1]
  have ua: "fst (UpdateActions noActionsEnv t) = Inl (TypeError ''choices undefined'')" for t
    by (simp add: noActionsEnv_def)
  have na1: "fst (authenticate noActionsEnv failedOnce) = Inr True"
    by (simp add: authenticate_def case_prod_beta c noActionsEnv_def okEnv_def)
  have na2: "fst (matrix_fetchMatrixFeatures noActionsEnv t) = Inr ()" for t
    by (simp add: noActionsEnv_def okEnv_def)
  from NA na1 na2 ua
  have "\<exists>t. connect noActionsEnv failedOnce =
          connectFailed (TypeError ''choices undefined'') t"
    by blast
  with CF have q1: "status (connect noActionsEnv failedOnce) = Some ConnectionFailure \<and>
      connectionFailed (connect noActionsEnv failedOnce)"
    by metis
  have nh1: "fst (authenticate noHeartbeatEnv failedOnce) = Inr True"
    by (simp add: authenticate_def case_prod_beta c noHeartbeatEnv_def okEnv_def)
  have nh2: "fst (matrix_fetchMatrixFeatures noHeartbeatEnv t) = Inr ()"
    "fst (UpdateActions noHeartbeatEnv t) = Inr ()" for t
    by (simp_all add: noHeartbeatEnv_def okEnv_def)
  have nh3: "fst (startHeartbeat noHeartbeatEnv t) = Inl (Error ''heartbeat unavailable'')" for t
    by (simp add: startHeartbeat_def case_prod_beta noHeartbeatEnv_def)
  from NH nh1 nh2 nh3
  have "\<exists>t. connect noHeartbeatEnv failedOnce =
          connectFailed (Error ''heartbeat unavailable'') t"
    by blast
  with CF have q2: "status (connect noHeartbeatEnv failedOnce) = Some ConnectionFailure"
    by metis
  from D5 downEnv_sameAttempts
  have "reconnectAttempts (connect downEnv failedOnce) =
      (case fst (connectTry downEnv failedOnce) of
         Inl err \<Rightarrow> Suc (reconnectAttempts failedOnce)
       | Inr u \<Rightarrow> 0)"
    by blast
  with d1 have q3:
    "reconnectAttempts (connect downEnv failedOnce) = Suc (reconnectAttempts failedOnce)"
    by simp
  from f a4 o d1 d2 n1 p5 p6 b downEnv_sameAttempts ua q1 q2 q3 show ?thesis by blast
qed

section \<open>Reconfiguration\<close>

lemma sameTimers_authenticate:
  assumes "extRel sameTimers e"
  shows "sameTimers s (snd (authenticate e s))"
  using extRelD(1) [OF assms, of s]
  by (simp add: authenticate_def sameTimers_def case_prod_beta
        split: option.splits sum.splits)

lemma heartbeatTimers_scheduleReconnect:
  "heartbeatTimers s = [] \<Longrightarrow> heartbeatTimers (scheduleReconnect s) = []"
  by (cases "reconnectTimeout s")
     (auto simp: heartbeatTimers_def scheduleReconnect_eq filter_empty_conv)

lemma heartbeatTimers_connectFailed:
  assumes "heartbeatTimers s = []"
  shows "heartbeatTimers (connectFailed err s) = []"
proof -
  have "heartbeatTimers (s\<lparr>logs := logs s @ [(LError, MsgConnectionFailed err)],
          status := Some ConnectionFailure, connectionFailed := True\<rparr>) = []"
    using assms by (simp add: heartbeatTimers_def)
  then show ?thesis
    unfolding connectFailed_eq by (rule heartbeatTimers_scheduleReconnect)
qed

text \<open>With no heartbeat running, \<open>connect\<close> leaves exactly the heartbeat it starts.\<close>

lemma heartbeatTimers_connect:
  assumes "extRel sameTimers e" and "timersInv s" and "heartbeatInterval s = None"
  shows "heartbeatTimers (connect e s) =
           (case fst (connectTry e s) of
              Inl err \<Rightarrow> []
            | Inr u \<Rightarrow> [(nextTimer s, Interval HeartbeatCallback 30000)])"
proof -
  let ?s1 = "snd (authenticate e s)"
  let ?s2 = "snd (call CallFetchMatrixFeatures (matrix_fetchMatrixFeatures e) ?s1)"
  let ?s3 = "snd (updateActions e (log LDebug MsgVariablesAfterInit ?s2))"
  let ?s4 = "snd (startHeartbeat e ?s3)"
  note D = extRelD [OF assms(1), unfolded sameTimers_def]
  have 1: "sameTimers s ?s1" using assms(1) by (rule sameTimers_authenticate)
  have 2: "sameTimers s ?s2" using 1 D(2) [of ?s1] by (simp add: sameTimers_def)
  have 3: "sameTimers s ?s3"
    using 2 D(5) [of "log LDebug MsgVariablesAfterInit ?s2"]
    by (simp add: sameTimers_def updateActions_def log_def)
  have i1: "timersInv ?s1" using 1 assms(2) by (rule timersInv_sameTimers)
  have i2: "timersInv ?s2" using 2 assms(2) by (rule timersInv_sameTimers)
  have i3: "timersInv ?s3" using 3 assms(2) by (rule timersInv_sameTimers)
  have e0: "heartbeatTimers s = []" using assms(2,3) by (rule heartbeatTimers_none)
  have e1: "heartbeatTimers ?s1 = []"
    using 1 e0 by (simp add: heartbeatTimers_def sameTimers_def)
  have e2: "heartbeatTimers ?s2 = []"
    using 2 e0 by (simp add: heartbeatTimers_def sameTimers_def)
  have e3: "heartbeatTimers ?s3 = []"
    using 3 e0 by (simp add: heartbeatTimers_def sameTimers_def)
  have n3: "nextTimer ?s3 = nextTimer s" using 3 by (simp add: sameTimers_def)
  note h4 = heartbeatTimers_startHeartbeat [OF assms(1) i3, unfolded n3]
  show ?thesis
  proof (cases "fst (authenticate e s)")
    case (Inl err)
    then show ?thesis
      by (simp add: connect_def connectTry_def case_prod_beta
            heartbeatTimers_connectFailed [OF e1])
  next
    case a: (Inr b)
    show ?thesis
    proof (cases "fst (matrix_fetchMatrixFeatures e ?s1)")
      case (Inl err)
      with a show ?thesis
        using heartbeatTimers_connectFailed [OF e2]
        by (simp add: connect_def connectTry_def case_prod_beta)
    next
      case f: (Inr u)
      show ?thesis
      proof (cases "fst (updateActions e (log LDebug MsgVariablesAfterInit ?s2))")
        case (Inl err)
        with a f show ?thesis
          using heartbeatTimers_connectFailed [OF e3]
          by (simp add: connect_def connectTry_def case_prod_beta)
      next
        case u: (Inr v)
        show ?thesis
        proof (cases "fst (startHeartbeat e ?s3)")
          case (Inl err)
          with h4 have "heartbeatTimers ?s4 = []" by simp
          with a f u Inl show ?thesis
            using heartbeatTimers_connectFailed [of ?s4 err]
            by (simp add: connect_def connectTry_def case_prod_beta)
        next
          case (Inr w)
          with h4 have "heartbeatTimers ?s4 = [(nextTimer s, Interval HeartbeatCallback 30000)]"
            by simp
          then have "heartbeatTimers
              ((updateStatus Ok ?s4)\<lparr>connectionFailed := False, reconnectAttempts := 0\<rparr>) =
              [(nextTimer s, Interval HeartbeatCallback 30000)]"
            by (simp add: heartbeatTimers_def updateStatus_def)
          with a f u Inr show ?thesis
            by (simp add: connect_def connectTry_def case_prod_beta)
        qed
      qed
    qed
  qed
qed

lemma calls_connectTry_prefix:
  "\<exists>rest. calls (snd (connectTry e s)) = calls (snd (authenticate e s)) @ rest"
  by (simp add: connectTry_def case_prod_beta updateActions_def calls_startHeartbeat
        updateStatus_def split: sum.splits)

lemma calls_connect_prefix:
  "\<exists>rest. calls (connect e s) = calls (snd (authenticate e s)) @ rest"
  using calls_connectTry_prefix [of e s]
  by (simp add: connect_def case_prod_beta connectFailed_fields split: sum.splits)

text \<open>
  C3 as amended. For every state of the instance (a heartbeat running or not) and
  every configuration whose host, username and password are all non-empty,
  \<open>configUpdated\<close> stores the configuration, stops the heartbeat timer and then runs
  \<open>connect\<close> from the start, authentication first: the timer that was running is no
  longer armed when \<open>connect\<close> begins, and in a reachable state the only heartbeat timer
  afterwards is the one a successful \<open>connect\<close> has started.
\<close>

theorem configUpdated_restarts:
  assumes "\<not> notConfigured c"
  shows "configUpdated e c s = connect e (stopHeartbeat (s\<lparr>config := Some c\<rparr>)) \<and>
         heartbeatInterval (stopHeartbeat (s\<lparr>config := Some c\<rparr>)) = None \<and>
         (\<forall>h. heartbeatInterval s = Some h \<longrightarrow>
            h \<notin> fst ` set (timers (stopHeartbeat (s\<lparr>config := Some c\<rparr>)))) \<and>
         (\<exists>rest. calls (configUpdated e c s) = calls s @ CallAuthAuthenticate # rest) \<and>
         (reachable s \<and> extRel sameTimers e \<longrightarrow>
            heartbeatTimers (configUpdated e c s) =
              (case fst (connectTry e (stopHeartbeat (s\<lparr>config := Some c\<rparr>))) of
                 Inl err \<Rightarrow> []
               | Inr u \<Rightarrow> [(nextTimer s, Interval HeartbeatCallback 30000)]))"
proof -
  let ?s1 = "stopHeartbeat (s\<lparr>config := Some c\<rparr>)"
  have eq: "configUpdated e c s = connect e ?s1"
    using assms by (simp add: configUpdated_def Let_def)
  have none: "heartbeatInterval ?s1 = None" by (simp add: stopHeartbeat_eq)
  have gone: "\<forall>h. heartbeatInterval s = Some h \<longrightarrow> h \<notin> fst ` set (timers ?s1)"
    by (auto simp: stopHeartbeat_eq)
  have cfg: "config ?s1 = Some c" by (simp add: stopHeartbeat_eq)
  have "calls (snd (authenticate e ?s1)) = calls s @ [CallAuthAuthenticate]"
    using assms by (simp add: calls_authenticate cfg)
  with calls_connect_prefix [of e ?s1]
  have first: "\<exists>rest. calls (configUpdated e c s) = calls s @ CallAuthAuthenticate # rest"
    by (simp add: eq)
  have hb: "heartbeatTimers (configUpdated e c s) =
              (case fst (connectTry e ?s1) of
                 Inl err \<Rightarrow> []
               | Inr u \<Rightarrow> [(nextTimer s, Interval HeartbeatCallback 30000)])"
    if "reachable s" and "extRel sameTimers e"
  proof -
    have "timersInv (s\<lparr>config := Some c\<rparr>)"
      using that(1) by (simp add: reachable_timersInv)
    then have inv: "timersInv ?s1" by (rule timersInv_stopHeartbeat)
    have n: "nextTimer ?s1 = nextTimer s" by (simp add: stopHeartbeat_eq)
    show ?thesis
      using heartbeatTimers_connect [OF that(2) inv none, unfolded n] by (simp add: eq)
  qed
  from eq none gone first hb show ?thesis by blast
qed

theorem configUpdated_restarts_witness:
  "\<not> notConfigured goodConfig \<and> reachable connected \<and> extRel sameTimers okEnv \<and>
   heartbeatTimers connected = [(0, Interval HeartbeatCallback 30000)] \<and>
   configUpdated okEnv goodConfig connected =
     connect okEnv (stopHeartbeat (connected\<lparr>config := Some goodConfig\<rparr>)) \<and>
   heartbeatTimers (configUpdated okEnv goodConfig connected) =
     [(1, Interval HeartbeatCallback 30000)]"
proof -
  have g: "\<not> notConfigured goodConfig"
    by (simp add: goodConfig_def notConfigured_def falsy_def)
  have h: "heartbeatTimers connected = [(0, Interval HeartbeatCallback 30000)]"
    by (simp add: connected_eq heartbeatTimers_def)
  have n: "nextTimer connected = 1" by (simp add: connected_eq)
  have t: "fst (connectTry okEnv (stopHeartbeat (connected\<lparr>config := Some goodConfig\<rparr>))) =
             Inr ()"
    using g
    by (simp add: connectTry_def authenticate_def startHeartbeat_def updateActions_def
          case_prod_beta stopHeartbeat_eq okEnv_def)
  note A = configUpdated_restarts [OF g, of okEnv connected]
  from A have 1: "configUpdated okEnv goodConfig connected =
      connect okEnv (stopHeartbeat (connected\<lparr>config := Some goodConfig\<rparr>))"
    by blast
  from A connected_reachable okEnv_sameTimers
  have "heartbeatTimers (configUpdated okEnv goodConfig connected) =
      (case fst (connectTry okEnv (stopHeartbeat (connected\<lparr>config := Some goodConfig\<rparr>))) of
         Inl err \<Rightarrow> []
       | Inr u \<Rightarrow> [(nextTimer connected, Interval HeartbeatCallback 30000)])"
    by blast
  then have 2: "heartbeatTimers (configUpdated okEnv goodConfig connected) =
      [(1, Interval HeartbeatCallback 30000)]"
    by (simp add: t n)
  from g h 1 2 connected_reachable okEnv_sameTimers show ?thesis by blast
qed

text \<open>
  C3 as stated fails for a configuration with an empty required field: on the connected
  instance, \<open>configUpdated\<close> with an empty host sets \<open>BadConfig\<close> and returns; the
  heartbeat timer is still armed, nothing was called, and the result is not that of
  stopping the heartbeat and connecting.
\<close>

theorem configUpdated_incomplete_counterexample:
  "notConfigured emptyHostConfig \<and>
   heartbeatTimers connected = [(0, Interval HeartbeatCallback 30000)] \<and>
   heartbeatTimers (configUpdated okEnv emptyHostConfig connected) =
     [(0, Interval HeartbeatCallback 30000)] \<and>
   heartbeatInterval (configUpdated okEnv emptyHostConfig connected) = Some 0 \<and>
   calls (configUpdated okEnv emptyHostConfig connected) = calls connected \<and>
   status (configUpdated okEnv emptyHostConfig connected) = Some BadConfig \<and>
   configUpdated okEnv emptyHostConfig connected \<noteq>
     connect okEnv (stopHeartbeat (connected\<lparr>config := Some emptyHostConfig\<rparr>))"
proof -
  let ?s1 = "stopHeartbeat (connected\<lparr>config := Some emptyHostConfig\<rparr>)"
  have b: "notConfigured emptyHostConfig"
    by (simp add: emptyHostConfig_def notConfigured_def falsy_def)
  have u: "configUpdated okEnv emptyHostConfig connected =
      connected\<lparr>config := Some emptyHostConfig,
        logs := logs connected @ [(LWarn, MsgNotFullyConfigured)],
        status := Some BadConfig\<rparr>"
    using b by (simp add: configUpdated_def Let_def log_def updateStatus_def)
  have a: "fst (authenticate okEnv ?s1) = Inl (Error ''Module not fully configured'')"
    using b by (simp add: authenticate_def stopHeartbeat_eq)
  then have "fst (connectTry okEnv ?s1) = Inl (Error ''Module not fully configured'')"
    by (simp add: connectTry_authenticate_throws)
  then have "status (connect okEnv ?s1) = Some ConnectionFailure"
    by (simp add: connect_throws connectFailed_fields)
  moreover have "status (configUpdated okEnv emptyHostConfig connected) = Some BadConfig"
    by (simp add: u)
  ultimately have ne: "configUpdated okEnv emptyHostConfig connected \<noteq> connect okEnv ?s1"
    by auto
  show ?thesis
    using b ne by (simp add: u) (simp add: connected_eq heartbeatTimers_def)
qed

section \<open>Heartbeat failure\<close>

lemma heartbeatCallback_throws:
  assumes "fst (heartbeat_sendHeartbeat e s) = Inl err"
  shows "heartbeatCallback e s =
           scheduleReconnect
             (stopHeartbeat
                (updateStatus ConnectionFailure
                   (log LWarn (MsgHeartbeatFailed err)
                      (snd (call CallSendHeartbeat (heartbeat_sendHeartbeat e) s)))))"
  using assms by (simp add: heartbeatCallback_def case_prod_beta)

text \<open>
  C8. When the heartbeat probe throws, the callback logs a warning, sets the status to
  \<open>ConnectionFailure\<close>, stops the heartbeat timer and runs \<open>scheduleReconnect\<close>:
  \<open>heartbeatInterval\<close> is \<open>null\<close>, the reconnect timer is armed, and the one probe
  is the only call made (no second probe, no authentication). In a reachable state no
  heartbeat timer is left and exactly one reconnect timer is pending.
\<close>

theorem heartbeat_failure:
  assumes "fst (heartbeat_sendHeartbeat e s) = Inl err"
  shows "heartbeatCallback e s =
           scheduleReconnect
             (stopHeartbeat
                (updateStatus ConnectionFailure
                   (log LWarn (MsgHeartbeatFailed err)
                      (snd (call CallSendHeartbeat (heartbeat_sendHeartbeat e) s))))) \<and>
         status (heartbeatCallback e s) = Some ConnectionFailure \<and>
         heartbeatInterval (heartbeatCallback e s) = None \<and>
         calls (heartbeatCallback e s) = calls s @ [CallSendHeartbeat] \<and>
         reconnectTimeout (heartbeatCallback e s) =
           Some (nextTimer (snd (heartbeat_sendHeartbeat e s))) \<and>
         last (timers (heartbeatCallback e s)) =
           (nextTimer (snd (heartbeat_sendHeartbeat e s)),
            Timeout ConnectCallback
              (reconnectDelay (reconnectAttempts (snd (heartbeat_sendHeartbeat e s))))) \<and>
         (reachable s \<and> extRel sameTimers e \<longrightarrow>
            heartbeatTimers (heartbeatCallback e s) = [] \<and>
            reconnectTimers (heartbeatCallback e s) =
              [(nextTimer s, Timeout ConnectCallback (reconnectDelay (reconnectAttempts
                  (snd (heartbeat_sendHeartbeat e s)))))])"
proof -
  let ?s1 = "snd (call CallSendHeartbeat (heartbeat_sendHeartbeat e) s)"
  let ?s2 = "updateStatus ConnectionFailure (log LWarn (MsgHeartbeatFailed err) ?s1)"
  let ?s3 = "stopHeartbeat ?s2"
  note eq = heartbeatCallback_throws [OF assms]
  have fields: "status (heartbeatCallback e s) = Some ConnectionFailure"
    "heartbeatInterval (heartbeatCallback e s) = None"
    "calls (heartbeatCallback e s) = calls s @ [CallSendHeartbeat]"
    "reconnectTimeout (heartbeatCallback e s) =
       Some (nextTimer (snd (heartbeat_sendHeartbeat e s)))"
    "last (timers (heartbeatCallback e s)) =
       (nextTimer (snd (heartbeat_sendHeartbeat e s)),
        Timeout ConnectCallback
          (reconnectDelay (reconnectAttempts (snd (heartbeat_sendHeartbeat e s)))))"
    unfolding eq
    by (simp_all add: scheduleReconnect_eq stopHeartbeat_eq updateStatus_def log_def)
  have timers: "heartbeatTimers (heartbeatCallback e s) = [] \<and>
      reconnectTimers (heartbeatCallback e s) =
        [(nextTimer s, Timeout ConnectCallback (reconnectDelay (reconnectAttempts
            (snd (heartbeat_sendHeartbeat e s)))))]"
    if "reachable s" and "extRel sameTimers e"
  proof -
    have "timersInv s" using that(1) by (rule reachable_timersInv)
    then have "timersInv (snd (heartbeat_sendHeartbeat e s))"
      by (rule timersInv_ext(4) [OF that(2)])
    then have inv2: "timersInv ?s2" by simp
    then have inv3: "timersInv ?s3" by (rule timersInv_stopHeartbeat)
    have h3: "heartbeatTimers ?s3 = []" using inv2 by (rule heartbeatTimers_stopHeartbeat)
    have n: "nextTimer ?s3 = nextTimer s"
      using extRelD(4) [OF that(2), of s]
      by (simp add: sameTimers_def stopHeartbeat_eq updateStatus_def log_def)
    have r: "reconnectAttempts ?s3 = reconnectAttempts (snd (heartbeat_sendHeartbeat e s))"
      by (simp add: stopHeartbeat_eq updateStatus_def log_def)
    show ?thesis
      unfolding eq
      using heartbeatTimers_scheduleReconnect [OF h3]
        reconnectTimers_scheduleReconnect [OF inv3, unfolded n r]
      by blast
  qed
  from eq fields timers show ?thesis by blast
qed

theorem heartbeat_failure_witness:
  "fst (heartbeat_sendHeartbeat downEnv connected) = Inl (Error ''socket hang up'') \<and>
   reachable connected \<and> extRel sameTimers downEnv \<and>
   heartbeatTimers connected = [(0, Interval HeartbeatCallback 30000)] \<and>
   status (heartbeatCallback downEnv connected) = Some ConnectionFailure \<and>
   heartbeatInterval (heartbeatCallback downEnv connected) = None \<and>
   calls (heartbeatCallback downEnv connected) = calls connected @ [CallSendHeartbeat] \<and>
   heartbeatTimers (heartbeatCallback downEnv connected) = [] \<and>
   reconnectTimers (heartbeatCallback downEnv connected) = [(1, Timeout ConnectCallback 1000)]"
proof -
  have f: "fst (heartbeat_sendHeartbeat downEnv connected) = Inl (Error ''socket hang up'')"
    by (simp add: downEnv_def)
  have s: "snd (heartbeat_sendHeartbeat downEnv connected) = connected"
    by (simp add: downEnv_def)
  have h: "heartbeatTimers connected = [(0, Interval HeartbeatCallback 30000)]"
    by (simp add: connected_eq heartbeatTimers_def)
  have n: "nextTimer connected = 1" "reconnectDelay (reconnectAttempts connected) = 1000"
    by (simp_all add: connected_eq reconnectDelay_def)
  note A = heartbeat_failure [OF f]
  from A have 1: "status (heartbeatCallback downEnv connected) = Some ConnectionFailure \<and>
      heartbeatInterval (heartbeatCallback downEnv connected) = None \<and>
      calls (heartbeatCallback downEnv connected) = calls connected @ [CallSendHeartbeat]"
    by blast
  from A connected_reachable downEnv_sameTimers
  have "heartbeatTimers (heartbeatCallback downEnv connected) = [] \<and>
      reconnectTimers (heartbeatCallback downEnv connected) =
        [(nextTimer connected, Timeout ConnectCallback (reconnectDelay (reconnectAttempts
            (snd (heartbeat_sendHeartbeat downEnv connected)))))]"
    by blast
  then have 2: "heartbeatTimers (heartbeatCallback downEnv connected) = [] \<and>
      reconnectTimers (heartbeatCallback downEnv connected) =
        [(1, Timeout ConnectCallback 1000)]"
    by (simp add: s n)
  from f h 1 2 connected_reachable downEnv_sameTimers show ?thesis by blast
qed

section \<open>Incomplete configuration\<close>

lemma configUpdated_notConfigured:
  assumes "notConfigured c"
  shows "configUpdated e c s =
           s\<lparr>config := Some c, logs := logs s @ [(LWarn, MsgNotFullyConfigured)],
             status := Some BadConfig\<rparr>"
  using assms by (simp add: configUpdated_def Let_def log_def updateStatus_def)

lemma init_notConfigured:
  assumes "notConfigured c"
    and "\<forall>t. fst (UpdateFeedbacks e t) = Inr () \<and> config (snd (UpdateFeedbacks e t)) = config t"
    and "\<forall>t. fst (UpdateVariableDefinitions e t) = Inr () \<and>
             config (snd (UpdateVariableDefinitions e t)) = config t"
  shows "init e c s =
           (Inr (),
            updateStatus BadConfig
              (log LWarn MsgNotConfiguredYet
                 (snd (updateVariableDefinitions e
                    (snd (updateFeedbacks e
                       (updateStatus Connecting (s\<lparr>config := Some c\<rparr>))))))))"
  using assms
  by (simp add: init_def case_prod_beta updateFeedbacks_def updateVariableDefinitions_def
        updateStatus_def)

text \<open>
  C6. For every configuration in which host, username or password is empty or missing:
  \<open>configUpdated\<close> stores it, logs a warning, sets the status to \<open>BadConfig\<close> and
  returns, with no call into another module and no timer touched; \<open>init\<close> registers
  feedbacks and variable definitions, then logs a warning, sets the status to
  \<open>BadConfig\<close> and returns, these two registrations being its only calls (no
  authentication, no feature discovery, no heartbeat: no connect attempt). For \<open>init\<close>
  the two registration functions of the other modules are assumed to return and to
  leave the stored configuration alone.
\<close>

theorem missing_field_bad_config:
  assumes "falsy (host c) \<or> falsy (username c) \<or> falsy (password c)"
  shows "status (configUpdated e c s) = Some BadConfig \<and>
         calls (configUpdated e c s) = calls s \<and>
         timers (configUpdated e c s) = timers s \<and>
         configUpdated e c s =
           s\<lparr>config := Some c, logs := logs s @ [(LWarn, MsgNotFullyConfigured)],
             status := Some BadConfig\<rparr> \<and>
         ((\<forall>t. fst (UpdateFeedbacks e t) = Inr () \<and>
               config (snd (UpdateFeedbacks e t)) = config t \<and>
               fst (UpdateVariableDefinitions e t) = Inr () \<and>
               config (snd (UpdateVariableDefinitions e t)) = config t) \<longrightarrow>
            fst (init e c s) = Inr () \<and>
            status (snd (init e c s)) = Some BadConfig \<and>
            calls (snd (init e c s)) =
              calls s @ [CallUpdateFeedbacks, CallUpdateVariableDefinitions] \<and>
            last (logs (snd (init e c s))) = (LWarn, MsgNotConfiguredYet) \<and>
            snd (init e c s) =
              updateStatus BadConfig
                (log LWarn MsgNotConfiguredYet
                   (snd (updateVariableDefinitions e
                      (snd (updateFeedbacks e
                         (updateStatus Connecting (s\<lparr>config := Some c\<rparr>))))))))"
proof -
  from assms have n: "notConfigured c" by (simp add: notConfigured_def)
  note cu = configUpdated_notConfigured [OF n, of e s]
  have 1: "status (configUpdated e c s) = Some BadConfig"
    "calls (configUpdated e c s) = calls s"
    "timers (configUpdated e c s) = timers s"
    by (simp_all add: cu)
  have 2: "fst (init e c s) = Inr () \<and>
            status (snd (init e c s)) = Some BadConfig \<and>
            calls (snd (init e c s)) =
              calls s @ [CallUpdateFeedbacks, CallUpdateVariableDefinitions] \<and>
            last (logs (snd (init e c s))) = (LWarn, MsgNotConfiguredYet) \<and>
            snd (init e c s) =
              updateStatus BadConfig
                (log LWarn MsgNotConfiguredYet
                   (snd (updateVariableDefinitions e
                      (snd (updateFeedbacks e
                         (updateStatus Connecting (s\<lparr>config := Some c\<rparr>)))))))"
    if "\<forall>t. fst (UpdateFeedbacks e t) = Inr () \<and>
               config (snd (UpdateFeedbacks e t)) = config t \<and>
               fst (UpdateVariableDefinitions e t) = Inr () \<and>
               config (snd (UpdateVariableDefinitions e t)) = config t"
  proof -
    from that have a: "\<forall>t. fst (UpdateFeedbacks e t) = Inr () \<and>
        config (snd (UpdateFeedbacks e t)) = config t"
      and b: "\<forall>t. fst (UpdateVariableDefinitions e t) = Inr () \<and>
        config (snd (UpdateVariableDefinitions e t)) = config t"
      by simp_all
    show ?thesis
      by (simp add: init_notConfigured [OF n a b])
         (simp add: updateStatus_def log_def updateFeedbacks_def updateVariableDefinitions_def)
  qed
  from 1 cu 2 show ?thesis by blast
qed

theorem missing_field_bad_config_witness:
  "falsy (password noPasswordConfig) \<and>
   status (configUpdated okEnv noPasswordConfig connected) = Some BadConfig \<and>
   calls (configUpdated okEnv noPasswordConfig connected) = calls connected \<and>
   fst (init okEnv noPasswordConfig constructor) = Inr () \<and>
   status (snd (init okEnv noPasswordConfig constructor)) = Some BadConfig \<and>
   calls (snd (init okEnv noPasswordConfig constructor)) =
     [CallUpdateFeedbacks, CallUpdateVariableDefinitions] \<and>
   timers (snd (init okEnv noPasswordConfig constructor)) = [] \<and>
   falsy (host emptyHostConfig) \<and>
   status (snd (init okEnv emptyHostConfig constructor)) = Some BadConfig"
proof -
  have p: "falsy (password noPasswordConfig)" by (simp add: noPasswordConfig_def falsy_def)
  have h: "falsy (host emptyHostConfig)" by (simp add: emptyHostConfig_def falsy_def)
  have r: "\<forall>t. fst (UpdateFeedbacks okEnv t) = Inr () \<and>
               config (snd (UpdateFeedbacks okEnv t)) = config t \<and>
               fst (UpdateVariableDefinitions okEnv t) = Inr () \<and>
               config (snd (UpdateVariableDefinitions okEnv t)) = config t"
    by (simp add: okEnv_def)
  have c: "calls constructor = []" by (simp add: constructor_def)
  note A = missing_field_bad_config [of noPasswordConfig okEnv connected]
  note B = missing_field_bad_config [of noPasswordConfig okEnv constructor]
  note C = missing_field_bad_config [of emptyHostConfig okEnv constructor]
  from A p have 1: "status (configUpdated okEnv noPasswordConfig connected) = Some BadConfig \<and>
      calls (configUpdated okEnv noPasswordConfig connected) = calls connected"
    by blast
  from B p r have 2: "fst (init okEnv noPasswordConfig constructor) = Inr () \<and>
      status (snd (init okEnv noPasswordConfig constructor)) = Some BadConfig \<and>
      calls (snd (init okEnv noPasswordConfig constructor)) =
        calls constructor @ [CallUpdateFeedbacks, CallUpdateVariableDefinitions]"
    by blast
  from B p r have "snd (init okEnv noPasswordConfig constructor) =
        updateStatus BadConfig
          (log LWarn MsgNotConfiguredYet
             (snd (updateVariableDefinitions okEnv
                (snd (updateFeedbacks okEnv
                   (updateStatus Connecting (constructor\<lparr>config := Some noPasswordConfig\<rparr>)))))))"
    by blast
  then have 3: "timers (snd (init okEnv noPasswordConfig constructor)) = []"
    by (simp add: updateStatus_def log_def updateFeedbacks_def updateVariableDefinitions_def
          okEnv_def constructor_def)
  from C h r have 4: "status (snd (init okEnv emptyHostConfig constructor)) = Some BadConfig"
    by blast
  from p h 1 2 3 4 c show ?thesis by simp
qed

end
